theory Spec2Isabelle
  imports Main
begin

section \<open>The syntax tree read by the schema reader\<close>

text \<open>
  \<^verbatim>\<open>src/reader.ts\<close> works on the syntax trees that the \<^verbatim>\<open>graphql\<close> package's
  \<^verbatim>\<open>parse\<close> returns. The parser is outside the repository, so the model starts at its
  output: a source is the list of the top-level definitions of its document. Only the
  parts of a node that the reader looks at are kept. A name node keeps its position in
  the text (\<open>name_loc\<close>, standing for graphql's \<^verbatim>\<open>loc\<close>), so that two occurrences of one
  name are two nodes. The text of an \<^verbatim>\<open>IntValue\<close> node is kept as the integer that
  \<^verbatim>\<open>Number(...)\<close> makes of it. \<open>OtherValue\<close> stands for every other kind of value node
  and \<open>OtherDefinition\<close> for every other kind of top-level definition. The parser gives
  every definition its \<^verbatim>\<open>fields\<close>, \<^verbatim>\<open>values\<close>, \<^verbatim>\<open>directives\<close> and \<^verbatim>\<open>arguments\<close> as
  arrays (empty when the text has none), so these are lists here.
\<close>

datatype name_node = NameNode (name_loc: nat) (name_value: string)

datatype value_node =
    is_StringValue: StringValue (string_of: string)
  | is_IntValue: IntValue (int_of: int)
  | is_ListValue: ListValue (values_of: "value_node list")
  | OtherValue

datatype argument_node = ArgumentNode (arg_name: name_node) (arg_value: value_node)

datatype directive_node =
  DirectiveNode (dir_name: name_node) (dir_arguments: "argument_node list")

datatype type_node = NamedType name_node | ListType type_node | NonNullType type_node

datatype field_node =
  FieldDefinitionNode (fd_name: name_node) (fd_description: "string option")
    (fd_type: type_node) (fd_directives: "directive_node list")

datatype enum_value_node = EnumValueDefinitionNode (ev_name: name_node)

datatype object_node =
  ObjectTypeDefinitionNode (obj_name: name_node) (obj_directives: "directive_node list")
    (obj_fields: "field_node list")

datatype enum_node =
  EnumTypeDefinitionNode (en_name: name_node) (en_directives: "directive_node list")
    (en_values: "enum_value_node list")

datatype definition_node =
    EnumTypeDefinition enum_node
  | ObjectTypeDefinition object_node
  | OtherDefinition

section \<open>Errors\<close>

text \<open>
  The reader throws two kinds of exception. A \<^verbatim>\<open>GraphQLError\<close> is the error meant for
  the author of the schema: a message, the nodes it is bound to (graphql keeps them as
  an array: one node, the array given, or nothing) and optionally the error it wraps.
  A failed \<^verbatim>\<open>assert.ok\<close> throws node's \<^verbatim>\<open>AssertionError\<close>, whose message quotes the
  asserted expression; \<open>assertion\<close> names the \<^verbatim>\<open>assert.ok\<close> calls of the file that can
  fail (the three checks that an array of fields or values is not null cannot, see
  above). Messages are kept as the bytes of their UTF-8 text.
\<close>

datatype gnode =
    NName name_node
  | NValue value_node
  | NArgument argument_node
  | NDirective directive_node
  | NType type_node
  | NField field_node
  | NEnum enum_node
  | NDefinition definition_node

datatype assertion =
    AssertReferencesTable
  | AssertRefDefNode
  | AssertColumnType
  | AssertIndexingDirective
  | AssertIndexingArgs
  | AssertIndexingFirst
  | AssertTagsArgs
  | AssertTagString
  | AssertRefArgs
  | AssertFileArgs
  | AssertFilesArgs
  | AssertFilesString

datatype error =
    GraphQLError (message: string) (nodes: "gnode list") (originalError: "error option")
  | AssertionError assertion

section \<open>The schema model that is returned\<close>

record RefUsingColumn =
  ref_table :: string
  ref_column :: "string option"

record TableColumn =
  col_name :: "string option"
  col_description :: "string option"
  col_array :: bool
  col_type :: string
  col_unique :: bool
  col_localized :: bool
  col_references :: "RefUsingColumn option"
  col_until :: "unit option"
  col_file :: "string option"
  col_files :: "string list option"

record SchemaTable =
  tbl_name :: string
  tbl_columns :: "TableColumn list"
  tbl_tags :: "string list"

record SchemaEnumeration =
  enum_name :: string
  enum_indexing :: int
  enum_enumerators :: "string option list"

record SchemaFile =
  tables :: "SchemaTable list"
  enumerations :: "SchemaEnumeration list"

section \<open>Scalar types and the directive specifications\<close>

definition ScalarTypes :: "string list" where
  "ScalarTypes = [''bool'', ''string'', ''i16'', ''i32'', ''f32'']"

datatype directive_spec =
    DIRECTIVE_REF
  | DIRECTIVE_UNIQUE
  | DIRECTIVE_LOCALIZED
  | DIRECTIVE_FILE
  | DIRECTIVE_FILES_GROUP
  | DIRECTIVE_ENUM_INDEXING
  | DIRECTIVE_TABLE_TAGS

fun NAME :: "directive_spec \<Rightarrow> string" where
  "NAME DIRECTIVE_REF = ''ref''"
| "NAME DIRECTIVE_UNIQUE = ''unique''"
| "NAME DIRECTIVE_LOCALIZED = ''localized''"
| "NAME DIRECTIVE_FILE = ''file''"
| "NAME DIRECTIVE_FILES_GROUP = ''files''"
| "NAME DIRECTIVE_ENUM_INDEXING = ''indexing''"
| "NAME DIRECTIVE_TABLE_TAGS = ''tags''"

definition unknownArgument :: "argument_node \<Rightarrow> error" where
  "unknownArgument arg =
     GraphQLError (''Unknown argument \"'' @ name_value (arg_name arg) @ ''\".'')
       [NName (arg_name arg)] None"

text \<open>The loop \<^verbatim>\<open>for (const arg of directive.arguments)\<close> of \<^verbatim>\<open>DIRECTIVE_REF.validate\<close>.\<close>

fun ref_validate_args :: "argument_node list \<Rightarrow> error + unit" where
  "ref_validate_args [] = Inr ()"
| "ref_validate_args (arg # args) =
     (if name_value (arg_name arg) = ''column'' then
        (if \<not> is_StringValue (arg_value arg)
         then Inl (GraphQLError ''String expected.'' [NValue (arg_value arg)] None)
         else ref_validate_args args)
      else Inl (unknownArgument arg))"

definition ref_validate :: "directive_node \<Rightarrow> error + unit" where
  "ref_validate directive =
     (if dir_arguments directive = []
      then Inl (GraphQLError ''Missing referenced column name.'' [NDirective directive] None)
      else ref_validate_args (dir_arguments directive))"

text \<open>\<^verbatim>\<open>DIRECTIVE_UNIQUE.validate\<close> and \<^verbatim>\<open>DIRECTIVE_LOCALIZED.validate\<close> are the same code.\<close>

definition no_arguments_validate :: "directive_node \<Rightarrow> error + unit" where
  "no_arguments_validate directive =
     (if dir_arguments directive \<noteq> []
      then Inl (GraphQLError ''Directive doesn't accept arguments.''
                  (map NArgument (dir_arguments directive)) None)
      else Inr ())"

fun file_validate_args :: "argument_node list \<Rightarrow> error + unit" where
  "file_validate_args [] = Inr ()"
| "file_validate_args (arg # args) =
     (if name_value (arg_name arg) = ''ext'' then
        (if \<not> is_StringValue (arg_value arg)
         then Inl (GraphQLError ''String expected.'' [NValue (arg_value arg)] None)
         else file_validate_args args)
      else Inl (unknownArgument arg))"

definition file_validate :: "directive_node \<Rightarrow> error + unit" where
  "file_validate directive =
     (if dir_arguments directive = []
      then Inl (GraphQLError ''Missing file extension.'' [NDirective directive] None)
      else file_validate_args (dir_arguments directive))"

text \<open>The loop \<^verbatim>\<open>for (const listValue of arg.value.values)\<close> of the two list directives.\<close>

fun strings_expected :: "value_node list \<Rightarrow> error + unit" where
  "strings_expected [] = Inr ()"
| "strings_expected (listValue # rest) =
     (if \<not> is_StringValue listValue
      then Inl (GraphQLError ''String expected.'' [NValue listValue] None)
      else strings_expected rest)"

fun files_validate_args :: "argument_node list \<Rightarrow> error + unit" where
  "files_validate_args [] = Inr ()"
| "files_validate_args (arg # args) =
     (if name_value (arg_name arg) = ''ext'' then
        (if \<not> is_ListValue (arg_value arg)
         then Inl (GraphQLError ''List of extensions expected.'' [NValue (arg_value arg)] None)
         else (case strings_expected (values_of (arg_value arg)) of
                 Inl e \<Rightarrow> Inl e
               | Inr _ \<Rightarrow> files_validate_args args))
      else Inl (unknownArgument arg))"

definition files_validate :: "directive_node \<Rightarrow> error + unit" where
  "files_validate directive =
     (if dir_arguments directive = []
      then Inl (GraphQLError ''Missing file extensions.'' [NDirective directive] None)
      else files_validate_args (dir_arguments directive))"

fun indexing_validate_args :: "argument_node list \<Rightarrow> error + unit" where
  "indexing_validate_args [] = Inr ()"
| "indexing_validate_args (arg # args) =
     (if name_value (arg_name arg) = ''first'' then
        (if \<not> is_IntValue (arg_value arg) \<or>
            (int_of (arg_value arg) \<noteq> 0 \<and> int_of (arg_value arg) \<noteq> 1)
         then Inl (GraphQLError ''Integer 0 or 1 expected.'' [NValue (arg_value arg)] None)
         else indexing_validate_args args)
      else Inl (unknownArgument arg))"

definition indexing_validate :: "directive_node \<Rightarrow> error + unit" where
  "indexing_validate directive =
     (if dir_arguments directive = []
      then Inl (GraphQLError ''Missing first enumerator index.'' [NDirective directive] None)
      else indexing_validate_args (dir_arguments directive))"

fun tags_validate_args :: "argument_node list \<Rightarrow> error + unit" where
  "tags_validate_args [] = Inr ()"
| "tags_validate_args (arg # args) =
     (if name_value (arg_name arg) = ''list'' then
        (if \<not> is_ListValue (arg_value arg)
         then Inl (GraphQLError ''List of tags expected.'' [NValue (arg_value arg)] None)
         else if values_of (arg_value arg) = []
         then Inl (GraphQLError ''At least one tag should be in the list.''
                     [NValue (arg_value arg)] None)
         else (case strings_expected (values_of (arg_value arg)) of
                 Inl e \<Rightarrow> Inl e
               | Inr _ \<Rightarrow> tags_validate_args args))
      else Inl (unknownArgument arg))"

definition tags_validate :: "directive_node \<Rightarrow> error + unit" where
  "tags_validate directive =
     (if dir_arguments directive = []
      then Inl (GraphQLError ''Missing list of tags.'' [NDirective directive] None)
      else tags_validate_args (dir_arguments directive))"

fun validate :: "directive_spec \<Rightarrow> directive_node \<Rightarrow> error + unit" where
  "validate DIRECTIVE_REF = ref_validate"
| "validate DIRECTIVE_UNIQUE = no_arguments_validate"
| "validate DIRECTIVE_LOCALIZED = no_arguments_validate"
| "validate DIRECTIVE_FILE = file_validate"
| "validate DIRECTIVE_FILES_GROUP = files_validate"
| "validate DIRECTIVE_ENUM_INDEXING = indexing_validate"
| "validate DIRECTIVE_TABLE_TAGS = tags_validate"

section \<open>Directive lookup and validation\<close>

text \<open>
  \<^verbatim>\<open>validateDirectives\<close> and \<^verbatim>\<open>findDirective\<close> read nothing of their node but
  \<^verbatim>\<open>node.directives\<close>, which is what the model passes.
\<close>

fun validateDirectives :: "directive_node list \<Rightarrow> directive_spec list \<Rightarrow> error + unit" where
  "validateDirectives [] specs = Inr ()"
| "validateDirectives (directive # rest) specs =
     (case find (\<lambda>spec. NAME spec = name_value (dir_name directive)) specs of
        Some spec \<Rightarrow>
          (case validate spec directive of
             Inl e \<Rightarrow> Inl e
           | Inr _ \<Rightarrow> validateDirectives rest specs)
      | None \<Rightarrow>
          Inl (GraphQLError (''Unknown directive \"'' @ name_value (dir_name directive) @ ''\".'')
                 [NName (dir_name directive)] None))"

definition findDirective :: "directive_node list \<Rightarrow> string \<Rightarrow> directive_node option" where
  "findDirective directives name =
     find (\<lambda>directive. name_value (dir_name directive) = name) directives"

definition isUnique :: "field_node \<Rightarrow> bool" where
  "isUnique field = (findDirective (fd_directives field) (NAME DIRECTIVE_UNIQUE) \<noteq> None)"

definition isLocalized :: "field_node \<Rightarrow> bool" where
  "isLocalized field = (findDirective (fd_directives field) (NAME DIRECTIVE_LOCALIZED) \<noteq> None)"

text \<open>The \<^verbatim>\<open>map\<close> with an assertion in its callback, of \<^verbatim>\<open>getTags\<close> and \<^verbatim>\<open>getFileGroupExtensions\<close>.\<close>

fun string_values :: "assertion \<Rightarrow> value_node list \<Rightarrow> error + string list" where
  "string_values a [] = Inr []"
| "string_values a (listValue # rest) =
     (if \<not> is_StringValue listValue then Inl (AssertionError a)
      else (case string_values a rest of
              Inl e \<Rightarrow> Inl e
            | Inr vs \<Rightarrow> Inr (string_of listValue # vs)))"

definition getIndexingBase :: "enum_node \<Rightarrow> error + int" where
  "getIndexingBase node =
     (case findDirective (en_directives node) (NAME DIRECTIVE_ENUM_INDEXING) of
        None \<Rightarrow> Inl (AssertionError AssertIndexingDirective)
      | Some directive \<Rightarrow>
          (let args = dir_arguments directive in
           if \<not> (length args = 1 \<and> name_value (arg_name (args ! 0)) = ''first'' \<and>
                  is_IntValue (arg_value (args ! 0)))
           then Inl (AssertionError AssertIndexingArgs)
           else (let first = int_of (arg_value (args ! 0)) in
                 if \<not> (first = 0 \<or> first = 1) then Inl (AssertionError AssertIndexingFirst)
                 else Inr first)))"

definition getTags :: "object_node \<Rightarrow> error + string list" where
  "getTags node =
     (case findDirective (obj_directives node) (NAME DIRECTIVE_TABLE_TAGS) of
        None \<Rightarrow> Inr []
      | Some directive \<Rightarrow>
          (let args = dir_arguments directive in
           if \<not> (length args = 1 \<and> name_value (arg_name (args ! 0)) = ''list'' \<and>
                  is_ListValue (arg_value (args ! 0)))
           then Inl (AssertionError AssertTagsArgs)
           else string_values AssertTagString (values_of (arg_value (args ! 0)))))"

definition referencesField :: "field_node \<Rightarrow> error + string option" where
  "referencesField field =
     (case findDirective (fd_directives field) (NAME DIRECTIVE_REF) of
        None \<Rightarrow> Inr None
      | Some directive \<Rightarrow>
          (let args = dir_arguments directive in
           if \<not> (length args = 1 \<and> name_value (arg_name (args ! 0)) = ''column'' \<and>
                  is_StringValue (arg_value (args ! 0)))
           then Inl (AssertionError AssertRefArgs)
           else Inr (Some (string_of (arg_value (args ! 0))))))"

definition getFileExtension :: "field_node \<Rightarrow> error + string option" where
  "getFileExtension field =
     (case findDirective (fd_directives field) (NAME DIRECTIVE_FILE) of
        None \<Rightarrow> Inr None
      | Some directive \<Rightarrow>
          (let args = dir_arguments directive in
           if \<not> (length args = 1 \<and> name_value (arg_name (args ! 0)) = ''ext'' \<and>
                  is_StringValue (arg_value (args ! 0)))
           then Inl (AssertionError AssertFileArgs)
           else Inr (Some (string_of (arg_value (args ! 0))))))"

definition getFileGroupExtensions :: "field_node \<Rightarrow> error + string list option" where
  "getFileGroupExtensions field =
     (case findDirective (fd_directives field) (NAME DIRECTIVE_FILES_GROUP) of
        None \<Rightarrow> Inr None
      | Some directive \<Rightarrow>
          (let args = dir_arguments directive in
           if \<not> (length args = 1 \<and> name_value (arg_name (args ! 0)) = ''ext'' \<and>
                  is_ListValue (arg_value (args ! 0)))
           then Inl (AssertionError AssertFilesArgs)
           else (case string_values AssertFilesString (values_of (arg_value (args ! 0))) of
                   Inl e \<Rightarrow> Inl e
                 | Inr vs \<Rightarrow> Inr (Some vs))))"

section \<open>Unwrapping a field's type\<close>

record FieldType =
  ft_array :: bool
  ft_name :: string

definition unwrapType :: "field_node \<Rightarrow> error + FieldType" where
  "unwrapType field =
     (let (array, type) =
        (case fd_type field of ListType inner \<Rightarrow> (True, inner) | t \<Rightarrow> (False, t))
      in case type of
           NamedType n \<Rightarrow>
             (if name_value n = ''_'' \<and> \<not> array
              then Inl (GraphQLError ''Unknown type is only allowed inside an array.''
                          [NType (fd_type field)] None)
              else Inr \<lparr>ft_array = array, ft_name = name_value n\<rparr>)
         | _ \<Rightarrow> Inl (GraphQLError ''Valid type expected.'' [NType (fd_type field)] None))"

section \<open>The symbol maps\<close>

text \<open>
  A JavaScript \<^verbatim>\<open>Map\<close> iterates in the order its keys were first inserted, and the reader
  iterates \<^verbatim>\<open>typeDefsMap.values()\<close>, so a map is the list of its entries in that order.
  \<open>Map_set\<close> replaces the entry of a key that is present and appends one that is not.
\<close>

definition Map_has :: "(string \<times> 'v) list \<Rightarrow> string \<Rightarrow> bool" where
  "Map_has m k = (map_of m k \<noteq> None)"

definition Map_get :: "(string \<times> 'v) list \<Rightarrow> string \<Rightarrow> 'v option" where
  "Map_get m k = map_of m k"

fun Map_set :: "(string \<times> 'v) list \<Rightarrow> string \<Rightarrow> 'v \<Rightarrow> (string \<times> 'v) list" where
  "Map_set [] k v = [(k, v)]"
| "Map_set ((k', v') # m) k v =
     (if k' = k then (k, v) # m else (k', v') # Map_set m k v)"

definition Map_values :: "(string \<times> 'v) list \<Rightarrow> 'v list" where
  "Map_values m = map snd m"

record Context =
  typeDefsMap :: "(string \<times> object_node) list"
  enumDefsMap :: "(string \<times> enum_node) list"

section \<open>Resolving a column\<close>

text \<open>
  \<open>truthy\<close> is JavaScript's test \<^verbatim>\<open>if (s)\<close> of a value of type \<^verbatim>\<open>string | undefined\<close>:
  the empty string is false too.
\<close>

definition truthy :: "string option \<Rightarrow> bool" where
  "truthy s = (case s of None \<Rightarrow> False | Some v \<Rightarrow> v \<noteq> [])"

definition findReferencedField :: "object_node \<Rightarrow> string \<Rightarrow> error + string option" where
  "findReferencedField typeNode name =
     (case find (\<lambda>field. name_value (fd_name field) = name) (obj_fields typeNode) of
        None \<Rightarrow> Inr None
      | Some fieldNode \<Rightarrow>
          (case unwrapType fieldNode of
             Inl e \<Rightarrow> Inl e
           | Inr typeInfo \<Rightarrow>
               if ft_array typeInfo
               then Inl (GraphQLError
                           (CHR 0xD0 # CHR 0xA1 # ''annot refer to a column with an array type.'')
                           [NType (fd_type fieldNode)] None)
               else if \<not> isUnique fieldNode
               then Inl (GraphQLError ''Values in the referenced column must be unique.''
                           [NField fieldNode] None)
               else if ft_name typeInfo \<notin> set ScalarTypes
               then Inl (GraphQLError
                           (CHR 0xD0 # CHR 0xA1 # ''annot refer to a column with a non-scalar type.'')
                           [NType (fd_type fieldNode)] None)
               else Inr (Some (ft_name typeInfo))))"

text \<open>
  \<^verbatim>\<open>parseFieldNode\<close> keeps the classification in two variables that it assigns in place,
  \<^verbatim>\<open>references\<close> and \<^verbatim>\<open>fieldType.name\<close>. The model passes the pair through the two
  blocks that assign them: \<open>classifyFieldType\<close> is the chain of \<^verbatim>\<open>if\<close>s on the unwrapped
  type name (lines 340 to 360), \<open>resolveReferencedColumn\<close> the block under
  \<^verbatim>\<open>if (refFieldName)\<close> (lines 362 to 388).
\<close>

definition classifyFieldType ::
  "Context \<Rightarrow> string \<Rightarrow> field_node \<Rightarrow> FieldType \<Rightarrow> error + (RefUsingColumn option \<times> FieldType)"
where
  "classifyFieldType ctx tableName fieldNode fieldType =
     (if ft_name fieldType = tableName
      then Inr (Some \<lparr>ref_table = tableName, ref_column = None\<rparr>, fieldType\<lparr>ft_name := ''row''\<rparr>)
      else if ft_name fieldType = ''rid''
      then Inr (None, fieldType\<lparr>ft_name := ''foreignrow''\<rparr>)
      else if ft_name fieldType = ''_'' \<and> ft_array fieldType
      then Inr (None, fieldType\<lparr>ft_name := ''array''\<rparr>)
      else if ft_name fieldType \<notin> set ScalarTypes
      then (if Map_has (typeDefsMap ctx) (ft_name fieldType)
            then Inr (Some \<lparr>ref_table = ft_name fieldType, ref_column = None\<rparr>,
                      fieldType\<lparr>ft_name := ''foreignrow''\<rparr>)
            else if Map_has (enumDefsMap ctx) (ft_name fieldType)
            then Inr (Some \<lparr>ref_table = ft_name fieldType, ref_column = None\<rparr>,
                      fieldType\<lparr>ft_name := ''enumrow''\<rparr>)
            else Inl (GraphQLError
                        (''Can't find referenced table/enum \"'' @ ft_name fieldType @ ''\".'')
                        [NType (fd_type fieldNode)] None))
      else Inr (None, fieldType))"

definition resolveReferencedColumn ::
  "Context \<Rightarrow> field_node \<Rightarrow> string \<Rightarrow> RefUsingColumn option \<Rightarrow> FieldType
     \<Rightarrow> error + (RefUsingColumn option \<times> FieldType)"
where
  "resolveReferencedColumn ctx fieldNode refFieldName references fieldType =
     (case references of
        None \<Rightarrow> Inl (AssertionError AssertReferencesTable)
      | Some r \<Rightarrow>
          if ref_table r = [] then Inl (AssertionError AssertReferencesTable)
          else
            (case Map_get (typeDefsMap ctx) (ref_table r) of
               None \<Rightarrow> Inl (AssertionError AssertRefDefNode)
             | Some refDefNode \<Rightarrow>
                 (case findReferencedField refDefNode refFieldName of
                    Inl e \<Rightarrow>
                      Inl (GraphQLError
                             ''An error occurred while validating the referenced column.''
                             (map NDirective
                                (case findDirective (fd_directives fieldNode) (NAME DIRECTIVE_REF) of
                                   None \<Rightarrow> [] | Some d \<Rightarrow> [d]))
                             (Some e))
                  | Inr refFieldType \<Rightarrow>
                      if \<not> truthy refFieldType
                      then Inl (GraphQLError
                                  (''Can't find column \"'' @ refFieldName @ ''\" in table \"'' @
                                     ref_table r @ ''\".'')
                                  (map NDirective
                                     (case findDirective (fd_directives fieldNode)
                                             (NAME DIRECTIVE_REF) of
                                        None \<Rightarrow> [] | Some d \<Rightarrow> [d]))
                                  None)
                      else Inr (Some (r\<lparr>ref_column := Some refFieldName\<rparr>),
                                fieldType\<lparr>ft_name := the refFieldType\<rparr>))))"

definition parseFieldNode :: "Context \<Rightarrow> string \<Rightarrow> field_node \<Rightarrow> error + TableColumn" where
  "parseFieldNode ctx tableName fieldNode =
     (case validateDirectives (fd_directives fieldNode)
             [DIRECTIVE_REF, DIRECTIVE_UNIQUE, DIRECTIVE_LOCALIZED, DIRECTIVE_FILE,
              DIRECTIVE_FILES_GROUP] of
        Inl e \<Rightarrow> Inl e
      | Inr _ \<Rightarrow>
     (let unique = isUnique fieldNode; localized = isLocalized fieldNode in
      case referencesField fieldNode of
        Inl e \<Rightarrow> Inl e
      | Inr refFieldName \<Rightarrow>
     (case unwrapType fieldNode of
        Inl e \<Rightarrow> Inl e
      | Inr unwrapped \<Rightarrow>
     (case classifyFieldType ctx tableName fieldNode unwrapped of
        Inl e \<Rightarrow> Inl e
      | Inr (classified, classifiedType) \<Rightarrow>
     (case (if truthy refFieldName
            then resolveReferencedColumn ctx fieldNode (the refFieldName) classified classifiedType
            else Inr (classified, classifiedType)) of
        Inl e \<Rightarrow> Inl e
      | Inr (references, fieldType) \<Rightarrow>
     (if \<not> (ft_name fieldType \<in> set ScalarTypes \<or> ft_name fieldType = ''array'' \<or>
             ft_name fieldType = ''row'' \<or> ft_name fieldType = ''foreignrow'' \<or>
             ft_name fieldType = ''enumrow'')
      then Inl (AssertionError AssertColumnType)
      else
     (case getFileExtension fieldNode of
        Inl e \<Rightarrow> Inl e
      | Inr file \<Rightarrow>
     (case getFileGroupExtensions fieldNode of
        Inl e \<Rightarrow> Inl e
      | Inr files \<Rightarrow>
          Inr \<lparr>col_name = (if name_value (fd_name fieldNode) = ''_'' then None
                            else Some (name_value (fd_name fieldNode))),
               col_description = fd_description fieldNode,
               col_array = ft_array fieldType,
               col_type = ft_name fieldType,
               col_unique = unique,
               col_localized = localized,
               col_references = references,
               col_until = None,
               col_file = file,
               col_files = files\<rparr>))))))))"

section \<open>Resolving an enumeration\<close>

text \<open>The loop \<^verbatim>\<open>for (const valueNode of enumNode.values)\<close>, on \<^verbatim>\<open>schemaEnum.enumerators\<close>.\<close>

fun collectEnumerators ::
  "enum_value_node list \<Rightarrow> string option list \<Rightarrow> error + string option list"
where
  "collectEnumerators [] enumerators = Inr enumerators"
| "collectEnumerators (valueNode # rest) enumerators =
     (if name_value (ev_name valueNode) = ''_''
      then collectEnumerators rest (enumerators @ [None])
      else if Some (name_value (ev_name valueNode)) \<in> set enumerators
      then Inl (GraphQLError
                  (''Duplicate enumerator \"'' @ name_value (ev_name valueNode) @ ''\".'')
                  [NName (ev_name valueNode)] None)
      else collectEnumerators rest (enumerators @ [Some (name_value (ev_name valueNode))]))"

definition parseEnumNode :: "enum_node \<Rightarrow> error + SchemaEnumeration" where
  "parseEnumNode enumNode =
     (case validateDirectives (en_directives enumNode) [DIRECTIVE_ENUM_INDEXING] of
        Inl e \<Rightarrow> Inl e
      | Inr _ \<Rightarrow>
     (case findDirective (en_directives enumNode) (NAME DIRECTIVE_ENUM_INDEXING) of
        None \<Rightarrow>
          Inl (GraphQLError (CHR 0x60 # ''indexing'' @ CHR 0x60 # '' directive is required for enums.'')
                 [NEnum enumNode] None)
      | Some indexingDirective \<Rightarrow>
     (case getIndexingBase enumNode of
        Inl e \<Rightarrow> Inl e
      | Inr indexing \<Rightarrow>
     (case collectEnumerators (en_values enumNode) [] of
        Inl e \<Rightarrow> Inl e
      | Inr enumerators \<Rightarrow>
          Inr \<lparr>enum_name = name_value (en_name enumNode),
               enum_indexing = indexing,
               enum_enumerators =
                 (if length enumerators = 1 \<and> enumerators ! 0 = None then [] else enumerators)\<rparr>))))"

section \<open>Reading the sources\<close>

text \<open>The inner loop \<^verbatim>\<open>for (const typeNode of doc.definitions)\<close> and the loop over the sources.\<close>

fun collectDefinitions :: "definition_node list \<Rightarrow> Context \<Rightarrow> error + Context" where
  "collectDefinitions [] ctx = Inr ctx"
| "collectDefinitions (typeNode # rest) ctx =
     (case typeNode of
        EnumTypeDefinition en \<Rightarrow>
          if Map_has (enumDefsMap ctx) (name_value (en_name en))
          then Inl (GraphQLError ''Enum with this name has already been defined.''
                      [NName (en_name en)] None)
          else collectDefinitions rest
                 (ctx\<lparr>enumDefsMap := Map_set (enumDefsMap ctx) (name_value (en_name en)) en\<rparr>)
      | ObjectTypeDefinition ob \<Rightarrow>
          if Map_has (typeDefsMap ctx) (name_value (obj_name ob))
          then Inl (GraphQLError ''Table with this name has already been defined.''
                      [NName (obj_name ob)] None)
          else collectDefinitions rest
                 (ctx\<lparr>typeDefsMap := Map_set (typeDefsMap ctx) (name_value (obj_name ob)) ob\<rparr>)
      | OtherDefinition \<Rightarrow>
          Inl (GraphQLError ''Unsupported definition.'' [NDefinition typeNode] None))"

fun collectSources :: "definition_node list list \<Rightarrow> Context \<Rightarrow> error + Context" where
  "collectSources [] ctx = Inr ctx"
| "collectSources (doc # rest) ctx =
     (case collectDefinitions doc ctx of
        Inl e \<Rightarrow> Inl e
      | Inr ctx' \<Rightarrow> collectSources rest ctx')"

text \<open>The loop \<^verbatim>\<open>for (const fieldNode of typeNode.fields)\<close>, on \<^verbatim>\<open>table.columns\<close>.\<close>

fun parseFields ::
  "Context \<Rightarrow> string \<Rightarrow> field_node list \<Rightarrow> TableColumn list \<Rightarrow> error + TableColumn list"
where
  "parseFields ctx tableName [] columns = Inr columns"
| "parseFields ctx tableName (fieldNode # rest) columns =
     (case parseFieldNode ctx tableName fieldNode of
        Inl e \<Rightarrow> Inl e
      | Inr column \<Rightarrow>
          if col_name column \<noteq> None \<and> (\<exists>col \<in> set columns. col_name col = col_name column)
          then Inl (GraphQLError
                      (''Duplicate column name \"'' @ the (col_name column) @ ''\".'')
                      [NName (fd_name fieldNode)] None)
          else parseFields ctx tableName rest (columns @ [column]))"

text \<open>The body of the loop \<^verbatim>\<open>for (const typeNode of typeDefsMap.values())\<close>.\<close>

definition parseTableNode :: "Context \<Rightarrow> object_node \<Rightarrow> error + SchemaTable" where
  "parseTableNode ctx typeNode =
     (case validateDirectives (obj_directives typeNode) [DIRECTIVE_TABLE_TAGS] of
        Inl e \<Rightarrow> Inl e
      | Inr _ \<Rightarrow>
     (case getTags typeNode of
        Inl e \<Rightarrow> Inl e
      | Inr tags \<Rightarrow>
     (case parseFields ctx (name_value (obj_name typeNode)) (obj_fields typeNode) [] of
        Inl e \<Rightarrow> Inl e
      | Inr columns \<Rightarrow>
          Inr \<lparr>tbl_name = name_value (obj_name typeNode), tbl_columns = columns,
               tbl_tags = tags\<rparr>)))"

fun parseTables :: "Context \<Rightarrow> object_node list \<Rightarrow> error + SchemaTable list" where
  "parseTables ctx [] = Inr []"
| "parseTables ctx (typeNode # rest) =
     (case parseTableNode ctx typeNode of
        Inl e \<Rightarrow> Inl e
      | Inr table \<Rightarrow>
          (case parseTables ctx rest of
             Inl e \<Rightarrow> Inl e
           | Inr tbls \<Rightarrow> Inr (table # tbls)))"

fun parseEnums :: "enum_node list \<Rightarrow> error + SchemaEnumeration list" where
  "parseEnums [] = Inr []"
| "parseEnums (enumNode # rest) =
     (case parseEnumNode enumNode of
        Inl e \<Rightarrow> Inl e
      | Inr enumeration \<Rightarrow>
          (case parseEnums rest of
             Inl e \<Rightarrow> Inl e
           | Inr enums \<Rightarrow> Inr (enumeration # enums)))"

definition readSchemaSources :: "definition_node list list \<Rightarrow> error + SchemaFile" where
  "readSchemaSources sources =
     (case collectSources sources \<lparr>typeDefsMap = [], enumDefsMap = []\<rparr> of
        Inl e \<Rightarrow> Inl e
      | Inr ctx \<Rightarrow>
     (case parseTables ctx (Map_values (typeDefsMap ctx)) of
        Inl e \<Rightarrow> Inl e
      | Inr tbls \<Rightarrow>
     (case parseEnums (Map_values (enumDefsMap ctx)) of
        Inl e \<Rightarrow> Inl e
      | Inr enums \<Rightarrow> Inr \<lparr>tables = tbls, enumerations = enums\<rparr>)))"

section \<open>Enumerators\<close>

text \<open>
  What the loop over the enumerators returns, for any contents of \<^verbatim>\<open>schemaEnum.enumerators\<close>
  at its start: when the names other than \<open>_\<close> are pairwise different and none is
  collected already, every enumerator is appended, \<open>_\<close> as a null entry.
\<close>

lemma collectEnumerators_kept:
  "distinct (filter (\<lambda>n. n \<noteq> ''_'') (map (\<lambda>v. name_value (ev_name v)) vs)) \<Longrightarrow>
   \<forall>v \<in> set vs. name_value (ev_name v) \<noteq> ''_'' \<longrightarrow> Some (name_value (ev_name v)) \<notin> set acc \<Longrightarrow>
   collectEnumerators vs acc =
     Inr (acc @ map (\<lambda>v. if name_value (ev_name v) = ''_'' then None
                           else Some (name_value (ev_name v))) vs)"
proof (induction vs arbitrary: acc)
  case Nil
  then show ?case by simp
next
  case (Cons v vs)
  show ?case
  proof (cases "name_value (ev_name v) = ''_''")
    case True
    have "collectEnumerators vs (acc @ [None]) =
            Inr ((acc @ [None]) @ map (\<lambda>v. if name_value (ev_name v) = ''_'' then None
                           else Some (name_value (ev_name v))) vs)"
      using Cons.prems True by (intro Cons.IH) auto
    then show ?thesis using True by simp
  next
    case False
    have "collectEnumerators vs (acc @ [Some (name_value (ev_name v))]) =
            Inr ((acc @ [Some (name_value (ev_name v))]) @
                 map (\<lambda>v. if name_value (ev_name v) = ''_'' then None
                           else Some (name_value (ev_name v))) vs)"
      using Cons.prems False by (intro Cons.IH) (auto simp: image_iff)
    then show ?thesis using False Cons.prems(2) by simp
  qed
qed

lemma collectEnumerators_duplicate:
  "distinct (filter (\<lambda>n. n \<noteq> ''_'') (map (\<lambda>v. name_value (ev_name v)) pre)) \<Longrightarrow>
   \<forall>u \<in> set pre. name_value (ev_name u) \<noteq> ''_'' \<longrightarrow> Some (name_value (ev_name u)) \<notin> set acc \<Longrightarrow>
   name_value (ev_name v) \<noteq> ''_'' \<Longrightarrow>
   name_value (ev_name v) \<in> set (map (\<lambda>v. name_value (ev_name v)) pre) \<or>
     Some (name_value (ev_name v)) \<in> set acc \<Longrightarrow>
   collectEnumerators (pre @ v # post) acc =
     Inl (GraphQLError (''Duplicate enumerator \"'' @ name_value (ev_name v) @ ''\".'')
            [NName (ev_name v)] None)"
proof (induction pre arbitrary: acc)
  case Nil
  then show ?case by simp
next
  case (Cons u pre)
  show ?case
  proof (cases "name_value (ev_name u) = ''_''")
    case True
    have "collectEnumerators (pre @ v # post) (acc @ [None]) =
      Inl (GraphQLError (''Duplicate enumerator \"'' @ name_value (ev_name v) @ ''\".'')
            [NName (ev_name v)] None)"
      using Cons.prems True by (intro Cons.IH) auto
    then show ?thesis using True by simp
  next
    case False
    have "collectEnumerators (pre @ v # post) (acc @ [Some (name_value (ev_name u))]) =
      Inl (GraphQLError (''Duplicate enumerator \"'' @ name_value (ev_name v) @ ''\".'')
            [NName (ev_name v)] None)"
      using Cons.prems False by (intro Cons.IH) (auto simp: image_iff)
    then show ?thesis using False Cons.prems(2) by simp
  qed
qed

lemma getIndexingBase_directive:
  "getIndexingBase enumNode = Inr indexing \<Longrightarrow>
   \<exists>d. findDirective (en_directives enumNode) (NAME DIRECTIVE_ENUM_INDEXING) = Some d"
  by (auto simp: getIndexingBase_def split: option.splits)

text \<open>
  Claim C8. Let the directives of an enumeration definition pass validation and let its
  indexing base be read (the enumerators are not looked at before). An enumerator named
  \<open>_\<close> is recorded as a null entry and every other one under its name: when the names
  other than \<open>_\<close> are pairwise different, the enumeration is returned with the sequence
  collected so, except that a sequence of exactly one null entry is replaced by the empty
  one. The first enumerator whose name is not \<open>_\<close> and was collected before it ends the
  run with the duplicate-enumerator error bound to the name node of that occurrence; for
  the enumerators \<open>_\<close>, \<open>A\<close>, \<open>A\<close> that is the second \<open>A\<close>.
\<close>

theorem C8_enumerators:
  assumes "validateDirectives (en_directives enumNode) [DIRECTIVE_ENUM_INDEXING] = Inr ()"
    and "getIndexingBase enumNode = Inr indexing"
  shows
    "(distinct (filter (\<lambda>n. n \<noteq> ''_'') (map (\<lambda>v. name_value (ev_name v)) (en_values enumNode))) \<longrightarrow>
        parseEnumNode enumNode =
          Inr \<lparr>enum_name = name_value (en_name enumNode), enum_indexing = indexing,
               enum_enumerators =
                 (let collected = map (\<lambda>v. if name_value (ev_name v) = ''_'' then None
                                           else Some (name_value (ev_name v))) (en_values enumNode)
                  in if collected = [None] then [] else collected)\<rparr>) \<and>
     (\<forall>pre v post.
        en_values enumNode = pre @ v # post \<and>
        distinct (filter (\<lambda>n. n \<noteq> ''_'') (map (\<lambda>v. name_value (ev_name v)) pre)) \<and>
        name_value (ev_name v) \<noteq> ''_'' \<and>
        name_value (ev_name v) \<in> set (map (\<lambda>v. name_value (ev_name v)) pre) \<longrightarrow>
        parseEnumNode enumNode =
          Inl (GraphQLError (''Duplicate enumerator \"'' @ name_value (ev_name v) @ ''\".'')
                 [NName (ev_name v)] None))"
proof (intro conjI impI allI)
  obtain d where d: "findDirective (en_directives enumNode) (NAME DIRECTIVE_ENUM_INDEXING) = Some d"
    using getIndexingBase_directive [OF assms(2)] by blast
  {
    assume dist: "distinct (filter (\<lambda>n. n \<noteq> ''_'') (map (\<lambda>v. name_value (ev_name v)) (en_values enumNode)))"
    define collected where
      "collected = map (\<lambda>v. if name_value (ev_name v) = ''_'' then None
                              else Some (name_value (ev_name v))) (en_values enumNode)"
    have c: "collectEnumerators (en_values enumNode) [] = Inr ([] @ collected)"
      unfolding collected_def by (rule collectEnumerators_kept [OF dist]) simp
    have one: "(length xs = 1 \<and> xs ! 0 = None) = (xs = [None])" for xs :: "string option list"
      by (cases xs) auto
    show "parseEnumNode enumNode =
          Inr \<lparr>enum_name = name_value (en_name enumNode), enum_indexing = indexing,
               enum_enumerators =
                 (let collected = map (\<lambda>v. if name_value (ev_name v) = ''_'' then None
                                           else Some (name_value (ev_name v))) (en_values enumNode)
                  in if collected = [None] then [] else collected)\<rparr>"
      unfolding parseEnumNode_def assms d collected_def [symmetric] using c
      by (simp add: one Let_def del: One_nat_def)
  }
  fix pre v post
  assume h: "en_values enumNode = pre @ v # post \<and>
        distinct (filter (\<lambda>n. n \<noteq> ''_'') (map (\<lambda>v. name_value (ev_name v)) pre)) \<and>
        name_value (ev_name v) \<noteq> ''_'' \<and>
        name_value (ev_name v) \<in> set (map (\<lambda>v. name_value (ev_name v)) pre)"
  have "collectEnumerators (pre @ v # post) [] =
     Inl (GraphQLError (''Duplicate enumerator \"'' @ name_value (ev_name v) @ ''\".'')
            [NName (ev_name v)] None)"
    using h by (intro collectEnumerators_duplicate) auto
  then show "parseEnumNode enumNode =
          Inl (GraphQLError (''Duplicate enumerator \"'' @ name_value (ev_name v) @ ''\".'')
                 [NName (ev_name v)] None)"
    unfolding parseEnumNode_def assms d using h by simp
qed


theorem C8_enumerators_witness:
  "parseEnumNode
     (EnumTypeDefinitionNode (NameNode 5 ''E'')
        [DirectiveNode (NameNode 8 ''indexing'') [ArgumentNode (NameNode 17 ''first'') (IntValue 0)]]
        [EnumValueDefinitionNode (NameNode 30 ''_''), EnumValueDefinitionNode (NameNode 32 ''A''),
         EnumValueDefinitionNode (NameNode 34 ''A'')]) =
     Inl (GraphQLError ''Duplicate enumerator \"A\".'' [NName (NameNode 34 ''A'')] None) \<and>
   parseEnumNode
     (EnumTypeDefinitionNode (NameNode 5 ''E'')
        [DirectiveNode (NameNode 8 ''indexing'') [ArgumentNode (NameNode 17 ''first'') (IntValue 0)]]
        [EnumValueDefinitionNode (NameNode 30 ''_'')]) =
     Inr \<lparr>enum_name = ''E'', enum_indexing = 0, enum_enumerators = []\<rparr> \<and>
   parseEnumNode
     (EnumTypeDefinitionNode (NameNode 5 ''E'')
        [DirectiveNode (NameNode 8 ''indexing'') [ArgumentNode (NameNode 17 ''first'') (IntValue 1)]]
        [EnumValueDefinitionNode (NameNode 30 ''_''), EnumValueDefinitionNode (NameNode 32 ''A'')]) =
     Inr \<lparr>enum_name = ''E'', enum_indexing = 1, enum_enumerators = [None, Some ''A'']\<rparr>"
proof -
  let ?d = "\<lambda>i. [DirectiveNode (NameNode 8 ''indexing'')
                   [ArgumentNode (NameNode 17 ''first'') (IntValue i)]]"
  let ?E = "\<lambda>i. EnumTypeDefinitionNode (NameNode 5 ''E'') (?d i)"
  let ?u = "EnumValueDefinitionNode (NameNode 30 ''_'')"
  let ?a = "EnumValueDefinitionNode (NameNode 32 ''A'')"
  let ?b = "EnumValueDefinitionNode (NameNode 34 ''A'')"
  have v: "validateDirectives (en_directives (?E i vs)) [DIRECTIVE_ENUM_INDEXING] = Inr ()"
    if "i = 0 \<or> i = 1" for i vs
    using that by (auto simp: indexing_validate_def)
  have g: "getIndexingBase (?E i vs) = Inr i" if "i = 0 \<or> i = 1" for i vs
    using that by (auto simp: getIndexingBase_def findDirective_def)
  have dup: "parseEnumNode (?E 0 [?u, ?a, ?b]) =
     Inl (GraphQLError ''Duplicate enumerator \"A\".'' [NName (NameNode 34 ''A'')] None)"
    using C8_enumerators [OF v g, of 0 "[?u, ?a, ?b]", THEN conjunct2, rule_format,
        of "[?u, ?a]" ?b "[]"]
    by simp
  have empty: "parseEnumNode (?E 0 [?u]) =
     Inr \<lparr>enum_name = ''E'', enum_indexing = 0, enum_enumerators = []\<rparr>"
    using C8_enumerators [OF v g, of 0 "[?u]", THEN conjunct1] by simp
  have kept: "parseEnumNode (?E 1 [?u, ?a]) =
     Inr \<lparr>enum_name = ''E'', enum_indexing = 1, enum_enumerators = [None, Some ''A'']\<rparr>"
    using C8_enumerators [OF v g, of 1 "[?u, ?a]", THEN conjunct1] by simp
  show ?thesis using dup empty kept by simp
qed

section \<open>Which errors each function throws\<close>

text \<open>
  The validators throw \<^verbatim>\<open>GraphQLError\<close>s only; the readers of a directive's arguments
  fail by their own assertion only; the closing assertion of \<^verbatim>\<open>parseFieldNode\<close> holds
  whenever it is reached.
\<close>

lemma strings_expected_error: "strings_expected vs = Inl e \<Longrightarrow> is_GraphQLError e"
  by (induction vs) (auto split: if_splits)

lemma ref_validate_args_error: "ref_validate_args args = Inl e \<Longrightarrow> is_GraphQLError e"
  by (induction args) (auto simp: unknownArgument_def split: if_splits)

lemma file_validate_args_error: "file_validate_args args = Inl e \<Longrightarrow> is_GraphQLError e"
  by (induction args) (auto simp: unknownArgument_def split: if_splits)

lemma files_validate_args_error: "files_validate_args args = Inl e \<Longrightarrow> is_GraphQLError e"
  by (induction args)
     (auto simp: unknownArgument_def dest: strings_expected_error split: if_splits sum.splits)

lemma indexing_validate_args_error: "indexing_validate_args args = Inl e \<Longrightarrow> is_GraphQLError e"
  by (induction args) (auto simp: unknownArgument_def split: if_splits)

lemma tags_validate_args_error: "tags_validate_args args = Inl e \<Longrightarrow> is_GraphQLError e"
  by (induction args)
     (auto simp: unknownArgument_def dest: strings_expected_error split: if_splits sum.splits)

lemma validate_error: "validate spec directive = Inl e \<Longrightarrow> is_GraphQLError e"
  by (cases spec)
     (auto simp: ref_validate_def no_arguments_validate_def file_validate_def files_validate_def
        indexing_validate_def tags_validate_def
        dest: ref_validate_args_error file_validate_args_error files_validate_args_error
          indexing_validate_args_error tags_validate_args_error
        split: if_splits)

lemma validateDirectives_error: "validateDirectives directives specs = Inl e \<Longrightarrow> is_GraphQLError e"
  by (induction directives) (auto dest: validate_error split: option.splits sum.splits)

lemma string_values_error: "string_values a vs = Inl e \<Longrightarrow> e = AssertionError a"
  by (induction vs) (auto split: if_splits sum.splits)

lemma referencesField_error: "referencesField field = Inl e \<Longrightarrow> e = AssertionError AssertRefArgs"
  by (auto simp: referencesField_def Let_def split: option.splits if_splits)

lemma getFileExtension_error:
  "getFileExtension field = Inl e \<Longrightarrow> e = AssertionError AssertFileArgs"
  by (auto simp: getFileExtension_def Let_def split: option.splits if_splits)

lemma getFileGroupExtensions_error:
  "getFileGroupExtensions field = Inl e \<Longrightarrow>
   e = AssertionError AssertFilesArgs \<or> e = AssertionError AssertFilesString"
  by (auto simp: getFileGroupExtensions_def Let_def dest: string_values_error
      split: option.splits if_splits sum.splits)

lemma getTags_error:
  "getTags node = Inl e \<Longrightarrow> e = AssertionError AssertTagsArgs \<or> e = AssertionError AssertTagString"
  by (auto simp: getTags_def Let_def dest: string_values_error
      split: option.splits if_splits sum.splits)

lemma getIndexingBase_error:
  "getIndexingBase node = Inl e \<Longrightarrow>
   e = AssertionError AssertIndexingDirective \<or> e = AssertionError AssertIndexingArgs \<or>
   e = AssertionError AssertIndexingFirst"
  by (auto simp: getIndexingBase_def Let_def split: option.splits if_splits)

lemma unwrapType_error: "unwrapType field = Inl e \<Longrightarrow> is_GraphQLError e"
  by (auto simp: unwrapType_def Let_def split: type_node.splits if_splits)

lemma classifyFieldType_error:
  "classifyFieldType ctx tableName fieldNode fieldType = Inl e \<Longrightarrow> is_GraphQLError e"
  by (auto simp: classifyFieldType_def split: if_splits)

lemma findReferencedField_error: "findReferencedField typeNode name = Inl e \<Longrightarrow> is_GraphQLError e"
  by (auto simp: findReferencedField_def dest: unwrapType_error
      split: option.splits sum.splits if_splits)

lemma findReferencedField_scalar:
  "findReferencedField typeNode name = Inr (Some t) \<Longrightarrow> t \<in> set ScalarTypes"
  by (auto simp: findReferencedField_def split: option.splits sum.splits if_splits)

lemma ScalarTypes_nonempty: "t \<in> set ScalarTypes \<Longrightarrow> t \<noteq> []"
  by (auto simp: ScalarTypes_def)

lemma resolveReferencedColumn_error:
  "resolveReferencedColumn ctx fieldNode refFieldName references fieldType = Inl e \<Longrightarrow>
   is_GraphQLError e \<or> e = AssertionError AssertReferencesTable \<or>
   e = AssertionError AssertRefDefNode"
  by (auto simp: resolveReferencedColumn_def split: option.splits sum.splits if_splits)

lemma classifyFieldType_closed:
  "classifyFieldType ctx tableName fieldNode fieldType = Inr (references, classifiedType) \<Longrightarrow>
   ft_name classifiedType \<in> set ScalarTypes \<or> ft_name classifiedType = ''array'' \<or>
   ft_name classifiedType = ''row'' \<or> ft_name classifiedType = ''foreignrow'' \<or>
   ft_name classifiedType = ''enumrow''"
  by (auto simp: classifyFieldType_def split: if_splits)

lemma resolveReferencedColumn_scalar:
  "resolveReferencedColumn ctx fieldNode refFieldName classified classifiedType =
     Inr (references, fieldType) \<Longrightarrow>
   ft_name fieldType \<in> set ScalarTypes"
  by (auto simp: resolveReferencedColumn_def truthy_def dest: findReferencedField_scalar
      split: option.splits sum.splits if_splits)

lemma parseFieldNode_error:
  assumes "parseFieldNode ctx tableName fieldNode = Inl e"
  shows "is_GraphQLError e \<or> e = AssertionError AssertRefArgs \<or>
         e = AssertionError AssertReferencesTable \<or> e = AssertionError AssertRefDefNode \<or>
         e = AssertionError AssertFileArgs \<or> e = AssertionError AssertFilesArgs \<or>
         e = AssertionError AssertFilesString"
  using assms unfolding parseFieldNode_def Let_def
  by (auto split: sum.splits prod.splits if_splits
      dest: validateDirectives_error referencesField_error unwrapType_error
        classifyFieldType_error resolveReferencedColumn_error getFileExtension_error
        getFileGroupExtensions_error classifyFieldType_closed resolveReferencedColumn_scalar)

text \<open>The definitions that evaluate the reader on a given schema.\<close>

lemmas reader_defs =
  readSchemaSources_def Map_has_def Map_get_def Map_values_def parseTableNode_def getTags_def
  findDirective_def parseFieldNode_def referencesField_def unwrapType_def classifyFieldType_def
  resolveReferencedColumn_def findReferencedField_def truthy_def ScalarTypes_def isUnique_def
  isLocalized_def getFileExtension_def getFileGroupExtensions_def ref_validate_def
  no_arguments_validate_def file_validate_def files_validate_def indexing_validate_def
  tags_validate_def parseEnumNode_def getIndexingBase_def unknownArgument_def

section \<open>Directive arguments\<close>

text \<open>\<^verbatim>\<open>DIRECTIVE_REF.validate\<close> accepts every non-empty list of string-valued \<open>column\<close> arguments.\<close>

lemma ref_validate_args_accepts:
  "ref_validate_args args = Inr () \<longleftrightarrow>
     (\<forall>arg \<in> set args. name_value (arg_name arg) = ''column'' \<and> is_StringValue (arg_value arg))"
  by (induction args) (auto simp: unknownArgument_def)

lemma ref_validate_accepts:
  "ref_validate directive = Inr () \<longleftrightarrow>
     dir_arguments directive \<noteq> [] \<and>
     (\<forall>arg \<in> set (dir_arguments directive).
        name_value (arg_name arg) = ''column'' \<and> is_StringValue (arg_value arg))"
  by (simp add: ref_validate_def ref_validate_args_accepts)

text \<open>
  Claim C9. The table \<^verbatim>\<open>type T { f: T @ref(column: "a", column: "b") }\<close>: the directive
  with two \<open>column\<close> arguments passes \<^verbatim>\<open>DIRECTIVE_REF.validate\<close> and the validation of the
  field's directives, so no error for the author of the schema is thrown; the run then ends
  in the assertion of \<^verbatim>\<open>referencesField\<close> that the directive has exactly one argument.
  Likewise a \<open>file\<close>, \<open>files\<close>, \<open>tags\<close> or \<open>indexing\<close> directive with its argument given twice
  passes validation and ends the run in the assertion of the function that reads it.
\<close>

theorem C9_ref_repeated_argument:
  "ref_validate
     (DirectiveNode (NameNode 15 ''ref'')
        [ArgumentNode (NameNode 19 ''column'') (StringValue ''a''),
         ArgumentNode (NameNode 32 ''column'') (StringValue ''b'')]) = Inr () \<and>
   validateDirectives
     [DirectiveNode (NameNode 15 ''ref'')
        [ArgumentNode (NameNode 19 ''column'') (StringValue ''a''),
         ArgumentNode (NameNode 32 ''column'') (StringValue ''b'')]]
     [DIRECTIVE_REF, DIRECTIVE_UNIQUE, DIRECTIVE_LOCALIZED, DIRECTIVE_FILE,
      DIRECTIVE_FILES_GROUP] = Inr () \<and>
   readSchemaSources
     [[ObjectTypeDefinition
         (ObjectTypeDefinitionNode (NameNode 5 ''T'') []
            [FieldDefinitionNode (NameNode 9 ''f'') None (NamedType (NameNode 12 ''T''))
               [DirectiveNode (NameNode 15 ''ref'')
                  [ArgumentNode (NameNode 19 ''column'') (StringValue ''a''),
                   ArgumentNode (NameNode 32 ''column'') (StringValue ''b'')]]])]] =
     Inl (AssertionError AssertRefArgs) \<and>
   readSchemaSources
     [[ObjectTypeDefinition
         (ObjectTypeDefinitionNode (NameNode 5 ''T'') []
            [FieldDefinitionNode (NameNode 9 ''f'') None (NamedType (NameNode 12 ''string''))
               [DirectiveNode (NameNode 20 ''file'')
                  [ArgumentNode (NameNode 25 ''ext'') (StringValue ''a''),
                   ArgumentNode (NameNode 35 ''ext'') (StringValue ''b'')]]])]] =
     Inl (AssertionError AssertFileArgs) \<and>
   readSchemaSources
     [[ObjectTypeDefinition
         (ObjectTypeDefinitionNode (NameNode 5 ''T'') []
            [FieldDefinitionNode (NameNode 9 ''f'') None (NamedType (NameNode 12 ''string''))
               [DirectiveNode (NameNode 20 ''files'')
                  [ArgumentNode (NameNode 26 ''ext'') (ListValue [StringValue ''a'']),
                   ArgumentNode (NameNode 38 ''ext'') (ListValue [StringValue ''b''])]]])]] =
     Inl (AssertionError AssertFilesArgs) \<and>
   readSchemaSources
     [[ObjectTypeDefinition
         (ObjectTypeDefinitionNode (NameNode 5 ''T'')
            [DirectiveNode (NameNode 8 ''tags'')
               [ArgumentNode (NameNode 13 ''list'') (ListValue [StringValue ''a'']),
                ArgumentNode (NameNode 26 ''list'') (ListValue [StringValue ''b''])]]
            [])]] =
     Inl (AssertionError AssertTagsArgs) \<and>
   readSchemaSources
     [[EnumTypeDefinition
         (EnumTypeDefinitionNode (NameNode 5 ''E'')
            [DirectiveNode (NameNode 8 ''indexing'')
               [ArgumentNode (NameNode 17 ''first'') (IntValue 0),
                ArgumentNode (NameNode 27 ''first'') (IntValue 1)]]
            [EnumValueDefinitionNode (NameNode 39 ''A'')])]] =
     Inl (AssertionError AssertIndexingArgs)"
  by (simp add: reader_defs)

section \<open>The steps of resolving a column\<close>

text \<open>
  Once the directives of a field are validated, its \<open>ref\<close> directive is read, its type is
  unwrapped and classified, \<^verbatim>\<open>parseFieldNode\<close> is the resolution of the referenced column
  followed by the reading of the file extensions: the closing assertion holds.
\<close>

lemma parseFieldNode_steps:
  assumes "validateDirectives (fd_directives fieldNode)
             [DIRECTIVE_REF, DIRECTIVE_UNIQUE, DIRECTIVE_LOCALIZED, DIRECTIVE_FILE,
              DIRECTIVE_FILES_GROUP] = Inr ()"
    and "referencesField fieldNode = Inr refFieldName"
    and "unwrapType fieldNode = Inr unwrapped"
    and "classifyFieldType ctx tableName fieldNode unwrapped = Inr (classified, classifiedType)"
  shows "parseFieldNode ctx tableName fieldNode =
     (case (if truthy refFieldName
            then resolveReferencedColumn ctx fieldNode (the refFieldName) classified classifiedType
            else Inr (classified, classifiedType)) of
        Inl e \<Rightarrow> Inl e
      | Inr (references, fieldType) \<Rightarrow>
     (case getFileExtension fieldNode of
        Inl e \<Rightarrow> Inl e
      | Inr file \<Rightarrow>
     (case getFileGroupExtensions fieldNode of
        Inl e \<Rightarrow> Inl e
      | Inr files \<Rightarrow>
          Inr \<lparr>col_name = (if name_value (fd_name fieldNode) = ''_'' then None
                            else Some (name_value (fd_name fieldNode))),
               col_description = fd_description fieldNode,
               col_array = ft_array fieldType,
               col_type = ft_name fieldType,
               col_unique = isUnique fieldNode,
               col_localized = isLocalized fieldNode,
               col_references = references,
               col_until = None,
               col_file = file,
               col_files = files\<rparr>)))"
proof -
  define res where
    "res = (if truthy refFieldName
            then resolveReferencedColumn ctx fieldNode (the refFieldName) classified classifiedType
            else Inr (classified, classifiedType))"
  have unfolded: "parseFieldNode ctx tableName fieldNode =
     (case res of
        Inl e \<Rightarrow> Inl e
      | Inr (references, fieldType) \<Rightarrow>
     (if \<not> (ft_name fieldType \<in> set ScalarTypes \<or> ft_name fieldType = ''array'' \<or>
             ft_name fieldType = ''row'' \<or> ft_name fieldType = ''foreignrow'' \<or>
             ft_name fieldType = ''enumrow'')
      then Inl (AssertionError AssertColumnType)
      else
     (case getFileExtension fieldNode of
        Inl e \<Rightarrow> Inl e
      | Inr file \<Rightarrow>
     (case getFileGroupExtensions fieldNode of
        Inl e \<Rightarrow> Inl e
      | Inr files \<Rightarrow>
          Inr \<lparr>col_name = (if name_value (fd_name fieldNode) = ''_'' then None
                            else Some (name_value (fd_name fieldNode))),
               col_description = fd_description fieldNode,
               col_array = ft_array fieldType,
               col_type = ft_name fieldType,
               col_unique = isUnique fieldNode,
               col_localized = isLocalized fieldNode,
               col_references = references,
               col_until = None,
               col_file = file,
               col_files = files\<rparr>))))"
    unfolding res_def using assms by (simp add: parseFieldNode_def Let_def)
  have closed: "ft_name fieldType \<in> set ScalarTypes \<or> ft_name fieldType = ''array'' \<or>
        ft_name fieldType = ''row'' \<or> ft_name fieldType = ''foreignrow'' \<or>
        ft_name fieldType = ''enumrow''"
    if "res = Inr (references, fieldType)" for references fieldType
    using that classifyFieldType_closed [OF assms(4)] unfolding res_def
    by (auto split: if_splits dest: resolveReferencedColumn_scalar)
  show ?thesis
    unfolding res_def [symmetric] unfolded
    using closed by (cases res) (auto split: prod.splits)
qed

lemma parseFieldNode_Inr:
  assumes "parseFieldNode ctx tableName fieldNode = Inr column"
  shows "\<exists>refFieldName unwrapped classified classifiedType references fieldType.
           validateDirectives (fd_directives fieldNode)
             [DIRECTIVE_REF, DIRECTIVE_UNIQUE, DIRECTIVE_LOCALIZED, DIRECTIVE_FILE,
              DIRECTIVE_FILES_GROUP] = Inr () \<and>
           referencesField fieldNode = Inr refFieldName \<and>
           unwrapType fieldNode = Inr unwrapped \<and>
           classifyFieldType ctx tableName fieldNode unwrapped = Inr (classified, classifiedType) \<and>
           (if truthy refFieldName
            then resolveReferencedColumn ctx fieldNode (the refFieldName) classified classifiedType
            else Inr (classified, classifiedType)) = Inr (references, fieldType) \<and>
           col_type column = ft_name fieldType \<and> col_array column = ft_array fieldType \<and>
           col_references column = references"
  using assms unfolding parseFieldNode_def Let_def
  by (auto split: sum.splits prod.splits if_splits)

lemma referencesField_directive:
  "referencesField field = Inr (Some x) \<Longrightarrow>
   \<exists>d. findDirective (fd_directives field) (NAME DIRECTIVE_REF) = Some d"
  by (auto simp: referencesField_def split: option.splits)

lemma referencesField_absent:
  "findDirective (fd_directives field) (NAME DIRECTIVE_REF) = None \<Longrightarrow>
   referencesField field = Inr None"
  by (auto simp: referencesField_def)

lemma findReferencedField_None:
  "findReferencedField typeNode name = Inr None \<longleftrightarrow>
   find (\<lambda>field. name_value (fd_name field) = name) (obj_fields typeNode) = None"
  by (auto simp: findReferencedField_def split: option.splits sum.splits)

text \<open>
  Claim C3, as amended. Take a field whose directives validate, with a \<open>ref\<close> directive
  whose single argument gives a column name, and whose type unwraps and is classified as a
  reference to a table of the table map (of a non-empty name). If the column name is not
  empty, the referenced column is looked up in that table's fields. When the look-up
  throws (the type of the column is not valid, or the column is array-typed, not unique or
  not of a scalar type), \<^verbatim>\<open>parseFieldNode\<close> throws an error bound to the \<open>ref\<close> directive
  that wraps the error of the look-up as its original error. When the table has no field
  of that name, the look-up throws nothing: \<^verbatim>\<open>parseFieldNode\<close> throws an error bound to
  the \<open>ref\<close> directive that wraps no original error. The resolution of the referenced
  column fails in no other case. If the column name is empty, as in
  \<^verbatim>\<open>@ref(column: "")\<close>, no column is looked up and no error is thrown for the reference:
  the column keeps the classified type and a reference that names no column.
\<close>

theorem C3_reference_errors:
  assumes "validateDirectives (fd_directives fieldNode)
             [DIRECTIVE_REF, DIRECTIVE_UNIQUE, DIRECTIVE_LOCALIZED, DIRECTIVE_FILE,
              DIRECTIVE_FILES_GROUP] = Inr ()"
    and "findDirective (fd_directives fieldNode) (NAME DIRECTIVE_REF) = Some refDirective"
    and "referencesField fieldNode = Inr (Some refFieldName)"
    and "unwrapType fieldNode = Inr unwrapped"
    and "classifyFieldType ctx tableName fieldNode unwrapped = Inr (Some r, classifiedType)"
    and "ref_table r \<noteq> []"
    and "Map_get (typeDefsMap ctx) (ref_table r) = Some refDefNode"
  shows
    "(refFieldName \<noteq> [] \<longrightarrow>
        (\<forall>e. findReferencedField refDefNode refFieldName = Inl e \<longrightarrow>
             parseFieldNode ctx tableName fieldNode =
               Inl (GraphQLError ''An error occurred while validating the referenced column.''
                      [NDirective refDirective] (Some e))) \<and>
        (find (\<lambda>field. name_value (fd_name field) = refFieldName) (obj_fields refDefNode) = None \<longrightarrow>
             parseFieldNode ctx tableName fieldNode =
               Inl (GraphQLError
                      (''Can't find column \"'' @ refFieldName @ ''\" in table \"'' @ ref_table r @ ''\".'')
                      [NDirective refDirective] None)) \<and>
        ((\<exists>e. resolveReferencedColumn ctx fieldNode refFieldName (Some r) classifiedType = Inl e) \<longrightarrow>
             (\<exists>e. findReferencedField refDefNode refFieldName = Inl e) \<or>
             find (\<lambda>field. name_value (fd_name field) = refFieldName) (obj_fields refDefNode) = None)) \<and>
     (refFieldName = [] \<longrightarrow>
        parseFieldNode ctx tableName fieldNode =
          (case getFileExtension fieldNode of
             Inl e \<Rightarrow> Inl e
           | Inr file \<Rightarrow>
          (case getFileGroupExtensions fieldNode of
             Inl e \<Rightarrow> Inl e
           | Inr files \<Rightarrow>
               Inr \<lparr>col_name = (if name_value (fd_name fieldNode) = ''_'' then None
                                 else Some (name_value (fd_name fieldNode))),
                    col_description = fd_description fieldNode,
                    col_array = ft_array classifiedType,
                    col_type = ft_name classifiedType,
                    col_unique = isUnique fieldNode,
                    col_localized = isLocalized fieldNode,
                    col_references = Some r,
                    col_until = None,
                    col_file = file,
                    col_files = files\<rparr>)))"
proof (intro conjI allI impI)
  note steps = parseFieldNode_steps [OF assms(1) assms(3) assms(4) assms(5)]
  {
    fix e assume "refFieldName \<noteq> []" and "findReferencedField refDefNode refFieldName = Inl e"
    then show "parseFieldNode ctx tableName fieldNode =
            Inl (GraphQLError ''An error occurred while validating the referenced column.''
                   [NDirective refDirective] (Some e))"
      unfolding steps using assms(2,6,7) by (simp add: resolveReferencedColumn_def truthy_def)
  }
  {
    assume n: "refFieldName \<noteq> []"
    assume "find (\<lambda>field. name_value (fd_name field) = refFieldName) (obj_fields refDefNode) = None"
    then have "findReferencedField refDefNode refFieldName = Inr None"
      by (simp add: findReferencedField_None)
    then show "parseFieldNode ctx tableName fieldNode =
            Inl (GraphQLError
                   (''Can't find column \"'' @ refFieldName @ ''\" in table \"'' @ ref_table r @ ''\".'')
                   [NDirective refDirective] None)"
      unfolding steps using n assms(2,6,7) by (simp add: resolveReferencedColumn_def truthy_def)
  }
  {
    assume "refFieldName \<noteq> []"
    assume "\<exists>e. resolveReferencedColumn ctx fieldNode refFieldName (Some r) classifiedType = Inl e"
    then show "(\<exists>e. findReferencedField refDefNode refFieldName = Inl e) \<or>
          find (\<lambda>field. name_value (fd_name field) = refFieldName) (obj_fields refDefNode) = None"
      using assms(6,7) findReferencedField_None [of refDefNode refFieldName]
      by (auto simp: resolveReferencedColumn_def truthy_def
          dest!: findReferencedField_scalar ScalarTypes_nonempty
          split: sum.splits if_splits option.splits)
  }
  assume "refFieldName = []"
  then show "parseFieldNode ctx tableName fieldNode =
          (case getFileExtension fieldNode of
             Inl e \<Rightarrow> Inl e
           | Inr file \<Rightarrow>
          (case getFileGroupExtensions fieldNode of
             Inl e \<Rightarrow> Inl e
           | Inr files \<Rightarrow>
               Inr \<lparr>col_name = (if name_value (fd_name fieldNode) = ''_'' then None
                                 else Some (name_value (fd_name fieldNode))),
                    col_description = fd_description fieldNode,
                    col_array = ft_array classifiedType,
                    col_type = ft_name classifiedType,
                    col_unique = isUnique fieldNode,
                    col_localized = isLocalized fieldNode,
                    col_references = Some r,
                    col_until = None,
                    col_file = file,
                    col_files = files\<rparr>))"
    unfolding steps by (simp add: truthy_def)
qed


theorem C3_reference_errors_witness:
  "parseFieldNode
     \<lparr>typeDefsMap =
        [(''T'', ObjectTypeDefinitionNode (NameNode 5 ''T'') []
            [FieldDefinitionNode (NameNode 9 ''x'') None (ListType (NamedType (NameNode 13 ''i32'')))
               [DirectiveNode (NameNode 19 ''unique'') []],
             FieldDefinitionNode (NameNode 26 ''f'') None (NamedType (NameNode 29 ''T''))
               [DirectiveNode (NameNode 32 ''ref'')
                  [ArgumentNode (NameNode 36 ''column'') (StringValue ''x'')]],
             FieldDefinitionNode (NameNode 49 ''g'') None (NamedType (NameNode 52 ''T''))
               [DirectiveNode (NameNode 55 ''ref'')
                  [ArgumentNode (NameNode 59 ''column'') (StringValue ''y'')]]])],
      enumDefsMap = []\<rparr>
     ''T''
     (FieldDefinitionNode (NameNode 26 ''f'') None (NamedType (NameNode 29 ''T''))
        [DirectiveNode (NameNode 32 ''ref'')
           [ArgumentNode (NameNode 36 ''column'') (StringValue ''x'')]]) =
     Inl (GraphQLError ''An error occurred while validating the referenced column.''
            [NDirective (DirectiveNode (NameNode 32 ''ref'')
               [ArgumentNode (NameNode 36 ''column'') (StringValue ''x'')])]
            (Some (GraphQLError
                     (CHR 0xD0 # CHR 0xA1 # ''annot refer to a column with an array type.'')
                     [NType (ListType (NamedType (NameNode 13 ''i32'')))] None))) \<and>
   parseFieldNode
     \<lparr>typeDefsMap =
        [(''T'', ObjectTypeDefinitionNode (NameNode 5 ''T'') []
            [FieldDefinitionNode (NameNode 9 ''x'') None (ListType (NamedType (NameNode 13 ''i32'')))
               [DirectiveNode (NameNode 19 ''unique'') []],
             FieldDefinitionNode (NameNode 26 ''f'') None (NamedType (NameNode 29 ''T''))
               [DirectiveNode (NameNode 32 ''ref'')
                  [ArgumentNode (NameNode 36 ''column'') (StringValue ''x'')]],
             FieldDefinitionNode (NameNode 49 ''g'') None (NamedType (NameNode 52 ''T''))
               [DirectiveNode (NameNode 55 ''ref'')
                  [ArgumentNode (NameNode 59 ''column'') (StringValue ''y'')]]])],
      enumDefsMap = []\<rparr>
     ''T''
     (FieldDefinitionNode (NameNode 49 ''g'') None (NamedType (NameNode 52 ''T''))
        [DirectiveNode (NameNode 55 ''ref'')
           [ArgumentNode (NameNode 59 ''column'') (StringValue ''y'')]]) =
     Inl (GraphQLError ''Can't find column \"y\" in table \"T\".''
            [NDirective (DirectiveNode (NameNode 55 ''ref'')
               [ArgumentNode (NameNode 59 ''column'') (StringValue ''y'')])]
            None) \<and>
   parseFieldNode
     \<lparr>typeDefsMap =
        [(''T'', ObjectTypeDefinitionNode (NameNode 5 ''T'') []
            [FieldDefinitionNode (NameNode 9 ''h'') None (NamedType (NameNode 12 ''T''))
               [DirectiveNode (NameNode 15 ''ref'')
                  [ArgumentNode (NameNode 19 ''column'') (StringValue '''')]]])],
      enumDefsMap = []\<rparr>
     ''T''
     (FieldDefinitionNode (NameNode 9 ''h'') None (NamedType (NameNode 12 ''T''))
        [DirectiveNode (NameNode 15 ''ref'')
           [ArgumentNode (NameNode 19 ''column'') (StringValue '''')]]) =
     Inr \<lparr>col_name = Some ''h'', col_description = None, col_array = False,
          col_type = ''row'', col_unique = False, col_localized = False,
          col_references = Some \<lparr>ref_table = ''T'', ref_column = None\<rparr>,
          col_until = None, col_file = None, col_files = None\<rparr>"
proof -
  let ?x = "FieldDefinitionNode (NameNode 9 ''x'') None (ListType (NamedType (NameNode 13 ''i32'')))
               [DirectiveNode (NameNode 19 ''unique'') []]"
  let ?df = "DirectiveNode (NameNode 32 ''ref'')
               [ArgumentNode (NameNode 36 ''column'') (StringValue ''x'')]"
  let ?dg = "DirectiveNode (NameNode 55 ''ref'')
               [ArgumentNode (NameNode 59 ''column'') (StringValue ''y'')]"
  let ?f = "FieldDefinitionNode (NameNode 26 ''f'') None (NamedType (NameNode 29 ''T'')) [?df]"
  let ?g = "FieldDefinitionNode (NameNode 49 ''g'') None (NamedType (NameNode 52 ''T'')) [?dg]"
  let ?T = "ObjectTypeDefinitionNode (NameNode 5 ''T'') [] [?x, ?f, ?g]"
  let ?ctx = "\<lparr>typeDefsMap = [(''T'', ?T)], enumDefsMap = []\<rparr>"
  let ?r = "\<lparr>ref_table = ''T'', ref_column = None\<rparr>"
  let ?ct = "\<lparr>ft_array = False, ft_name = ''row''\<rparr>"
  let ?u = "\<lparr>ft_array = False, ft_name = ''T''\<rparr>"
  let ?dh = "DirectiveNode (NameNode 15 ''ref'')
               [ArgumentNode (NameNode 19 ''column'') (StringValue '''')]"
  let ?h = "FieldDefinitionNode (NameNode 9 ''h'') None (NamedType (NameNode 12 ''T'')) [?dh]"
  let ?U = "ObjectTypeDefinitionNode (NameNode 5 ''T'') [] [?h]"
  let ?ctx' = "\<lparr>typeDefsMap = [(''T'', ?U)], enumDefsMap = []\<rparr>"
  have f: "parseFieldNode ?ctx ''T'' ?f =
     Inl (GraphQLError ''An error occurred while validating the referenced column.''
            [NDirective ?df]
            (Some (GraphQLError
                     (CHR 0xD0 # CHR 0xA1 # ''annot refer to a column with an array type.'')
                     [NType (ListType (NamedType (NameNode 13 ''i32'')))] None)))"
    using C3_reference_errors [of ?f ?df "''x''" ?u ?ctx "''T''" ?r ?ct ?T, THEN conjunct1,
        THEN mp, THEN conjunct1, rule_format, of "GraphQLError
                     (CHR 0xD0 # CHR 0xA1 # ''annot refer to a column with an array type.'')
                     [NType (ListType (NamedType (NameNode 13 ''i32'')))] None"]
    by (simp add: reader_defs)
  have g: "parseFieldNode ?ctx ''T'' ?g =
     Inl (GraphQLError ''Can't find column \"y\" in table \"T\".'' [NDirective ?dg] None)"
    using C3_reference_errors [of ?g ?dg "''y''" ?u ?ctx "''T''" ?r ?ct ?T, THEN conjunct1,
        THEN mp, THEN conjunct2, THEN conjunct1]
    by (simp add: reader_defs)
  have h: "parseFieldNode ?ctx' ''T'' ?h =
     Inr \<lparr>col_name = Some ''h'', col_description = None, col_array = False,
          col_type = ''row'', col_unique = False, col_localized = False,
          col_references = Some \<lparr>ref_table = ''T'', ref_column = None\<rparr>,
          col_until = None, col_file = None, col_files = None\<rparr>"
    using C3_reference_errors [of ?h ?dh "[]" ?u ?ctx' "''T''" ?r ?ct ?U, THEN conjunct2]
    by (simp add: Map_has_def Map_get_def findDirective_def referencesField_def unwrapType_def
        classifyFieldType_def truthy_def ScalarTypes_def isUnique_def isLocalized_def
        getFileExtension_def getFileGroupExtensions_def ref_validate_def
        no_arguments_validate_def file_validate_def files_validate_def unknownArgument_def)
  show ?thesis using f g h by simp
qed

text \<open>
  Claim C3 as stated fails on \<^verbatim>\<open>type T { g: T @ref(column: "y") }\<close>: no column \<open>y\<close> exists,
  and the error thrown carries no original error.
\<close>

theorem C3_reference_errors_counterexample:
  "readSchemaSources
     [[ObjectTypeDefinition
         (ObjectTypeDefinitionNode (NameNode 5 ''T'') []
            [FieldDefinitionNode (NameNode 9 ''g'') None (NamedType (NameNode 12 ''T''))
               [DirectiveNode (NameNode 15 ''ref'')
                  [ArgumentNode (NameNode 19 ''column'') (StringValue ''y'')]]])]] =
     Inl (GraphQLError ''Can't find column \"y\" in table \"T\".''
            [NDirective (DirectiveNode (NameNode 15 ''ref'')
               [ArgumentNode (NameNode 19 ''column'') (StringValue ''y'')])]
            None)"
  by (simp add: reader_defs)

section \<open>The assertions on the reference target\<close>

lemma classifyFieldType_array:
  "classifyFieldType ctx tableName fieldNode fieldType = Inr (references, classifiedType) \<Longrightarrow>
   ft_array classifiedType = ft_array fieldType"
  by (auto simp: classifyFieldType_def split: if_splits)

lemma resolveReferencedColumn_array:
  "resolveReferencedColumn ctx fieldNode refFieldName classified classifiedType =
     Inr (references, fieldType) \<Longrightarrow>
   ft_array fieldType = ft_array classifiedType"
  by (auto simp: resolveReferencedColumn_def split: option.splits sum.splits if_splits)

text \<open>
  Let a field of a table of the table map have a type that classification turns into a
  reference (names are not empty). Then it is classified as \<open>row\<close>, \<open>foreignrow\<close> or
  \<open>enumrow\<close>. For \<open>row\<close> and \<open>foreignrow\<close> the referenced name is a table of the table map:
  neither assertion on the reference target fails, and every failure of the resolution of
  the referenced column is a \<^verbatim>\<open>GraphQLError\<close>. For \<open>enumrow\<close> the referenced name is an
  enumeration and no table: the resolution of a referenced column, which takes place when
  the name given by the \<open>ref\<close> directive is not empty, ends in the assertion that the
  referenced table definition exists.
\<close>

lemma reference_target_assertions:
  assumes "Map_has (typeDefsMap ctx) tableName"
    and "tableName \<noteq> []"
    and "unwrapType fieldNode = Inr unwrapped"
    and "ft_name unwrapped \<noteq> []"
    and "classifyFieldType ctx tableName fieldNode unwrapped = Inr (Some r, classifiedType)"
  shows
    "(ft_name classifiedType = ''row'' \<or> ft_name classifiedType = ''foreignrow'' \<or>
      ft_name classifiedType = ''enumrow'') \<and>
     (ft_name classifiedType \<noteq> ''enumrow'' \<longrightarrow>
        (\<exists>refDefNode. Map_get (typeDefsMap ctx) (ref_table r) = Some refDefNode) \<and>
        (\<forall>e. resolveReferencedColumn ctx fieldNode refFieldName (Some r) classifiedType = Inl e \<longrightarrow>
             is_GraphQLError e) \<and>
        parseFieldNode ctx tableName fieldNode \<noteq> Inl (AssertionError AssertReferencesTable) \<and>
        parseFieldNode ctx tableName fieldNode \<noteq> Inl (AssertionError AssertRefDefNode)) \<and>
     (ft_name classifiedType = ''enumrow'' \<longrightarrow>
        resolveReferencedColumn ctx fieldNode refFieldName (Some r) classifiedType =
          Inl (AssertionError AssertRefDefNode) \<and>
        (validateDirectives (fd_directives fieldNode)
           [DIRECTIVE_REF, DIRECTIVE_UNIQUE, DIRECTIVE_LOCALIZED, DIRECTIVE_FILE,
            DIRECTIVE_FILES_GROUP] = Inr () \<and>
         referencesField fieldNode = Inr (Some refFieldName) \<and> refFieldName \<noteq> [] \<longrightarrow>
         parseFieldNode ctx tableName fieldNode = Inl (AssertionError AssertRefDefNode)))"
proof -
  have kinds: "ft_name classifiedType = ''row'' \<or> ft_name classifiedType = ''foreignrow'' \<or>
      ft_name classifiedType = ''enumrow''"
    using assms(5) by (auto simp: classifyFieldType_def split: if_splits)
  have nonempty: "ref_table r \<noteq> []"
    using assms(2,4,5) by (auto simp: classifyFieldType_def split: if_splits)
  have table: "Map_has (typeDefsMap ctx) (ref_table r)" if "ft_name classifiedType \<noteq> ''enumrow''"
    using assms(1,5) that by (auto simp: classifyFieldType_def split: if_splits)
  have enum: "\<not> Map_has (typeDefsMap ctx) (ref_table r)" if "ft_name classifiedType = ''enumrow''"
    using assms(1,5) that by (auto simp: classifyFieldType_def split: if_splits)
  have resolved: "is_GraphQLError e"
    if "ft_name classifiedType \<noteq> ''enumrow''"
      and "resolveReferencedColumn ctx fieldNode x (Some r) classifiedType = Inl e" for e x
    using table [OF that(1)] nonempty that(2)
    by (auto simp: resolveReferencedColumn_def Map_has_def Map_get_def
        split: sum.splits if_splits)
  have no_assert: "parseFieldNode ctx tableName fieldNode \<noteq> Inl (AssertionError a)"
    if "ft_name classifiedType \<noteq> ''enumrow''"
      and "a = AssertReferencesTable \<or> a = AssertRefDefNode" for a
  proof
    assume failed: "parseFieldNode ctx tableName fieldNode = Inl (AssertionError a)"
    show False
    proof (cases "validateDirectives (fd_directives fieldNode)
             [DIRECTIVE_REF, DIRECTIVE_UNIQUE, DIRECTIVE_LOCALIZED, DIRECTIVE_FILE,
              DIRECTIVE_FILES_GROUP]")
      case (Inl e)
      then show False using failed validateDirectives_error [OF Inl]
        by (simp add: parseFieldNode_def)
    next
      case v: (Inr u)
      show False
      proof (cases "referencesField fieldNode")
        case (Inl e)
        then show False using failed v that(2) referencesField_error [OF Inl]
          by (auto simp: parseFieldNode_def)
      next
        case (Inr refFieldName)
        have v': "validateDirectives (fd_directives fieldNode)
             [DIRECTIVE_REF, DIRECTIVE_UNIQUE, DIRECTIVE_LOCALIZED, DIRECTIVE_FILE,
              DIRECTIVE_FILES_GROUP] = Inr ()" using v by simp
        show False
          using failed that(2)
          unfolding parseFieldNode_steps [OF v' Inr assms(3) assms(5)]
          by (auto split: sum.splits prod.splits if_splits
              dest: getFileExtension_error getFileGroupExtensions_error resolved [OF that(1)])
      qed
    qed
  qed
  have enum_resolved:
    "resolveReferencedColumn ctx fieldNode x (Some r) classifiedType =
       Inl (AssertionError AssertRefDefNode)"
    if "ft_name classifiedType = ''enumrow''" for x
    using enum [OF that] nonempty
    by (simp add: resolveReferencedColumn_def Map_has_def Map_get_def)
  have enum_field: "parseFieldNode ctx tableName fieldNode = Inl (AssertionError AssertRefDefNode)"
    if "ft_name classifiedType = ''enumrow''"
      and "validateDirectives (fd_directives fieldNode)
           [DIRECTIVE_REF, DIRECTIVE_UNIQUE, DIRECTIVE_LOCALIZED, DIRECTIVE_FILE,
            DIRECTIVE_FILES_GROUP] = Inr ()"
      and "referencesField fieldNode = Inr (Some refFieldName)" and "refFieldName \<noteq> []"
    unfolding parseFieldNode_steps [OF that(2) that(3) assms(3) assms(5)]
    using enum_resolved [OF that(1)] that(4) by (simp add: truthy_def)
  show ?thesis
    using kinds table resolved no_assert enum_resolved enum_field
    by (auto simp: Map_has_def Map_get_def)
qed


text \<open>
  Claim C2. In \<^verbatim>\<open>enum E @indexing(first: 0) { A }  type T { g: E @ref(column: "x") }\<close> the
  field \<open>g\<close> carries a \<open>ref\<close> directive and classification gives it the \<open>enumrow\<close> reference
  to \<open>E\<close>, so that \<^verbatim>\<open>references.table\<close> is not null. The referenced definition is looked
  up among the tables only, where \<open>E\<close> is not: the run ends in the failure of the assertion
  that the referenced table definition exists, and in no error for the author of the
  schema. That assertion is not the one on a null \<^verbatim>\<open>references.table\<close>, which fails in
  \<^verbatim>\<open>type T { f: i32 @ref(column: "x") }\<close>, where classification gives no reference.
\<close>

theorem C2_enum_reference_assertion:
  "classifyFieldType
     \<lparr>typeDefsMap =
        [(''T'', ObjectTypeDefinitionNode (NameNode 38 ''T'') []
            [FieldDefinitionNode (NameNode 42 ''g'') None (NamedType (NameNode 45 ''E''))
               [DirectiveNode (NameNode 48 ''ref'')
                  [ArgumentNode (NameNode 52 ''column'') (StringValue ''x'')]]])],
      enumDefsMap =
        [(''E'', EnumTypeDefinitionNode (NameNode 5 ''E'')
            [DirectiveNode (NameNode 8 ''indexing'')
               [ArgumentNode (NameNode 17 ''first'') (IntValue 0)]]
            [EnumValueDefinitionNode (NameNode 29 ''A'')])]\<rparr>
     ''T''
     (FieldDefinitionNode (NameNode 42 ''g'') None (NamedType (NameNode 45 ''E''))
        [DirectiveNode (NameNode 48 ''ref'')
           [ArgumentNode (NameNode 52 ''column'') (StringValue ''x'')]])
     \<lparr>ft_array = False, ft_name = ''E''\<rparr> =
     Inr (Some \<lparr>ref_table = ''E'', ref_column = None\<rparr>,
          \<lparr>ft_array = False, ft_name = ''enumrow''\<rparr>) \<and>
   collectSources
     [[EnumTypeDefinition
         (EnumTypeDefinitionNode (NameNode 5 ''E'')
            [DirectiveNode (NameNode 8 ''indexing'')
               [ArgumentNode (NameNode 17 ''first'') (IntValue 0)]]
            [EnumValueDefinitionNode (NameNode 29 ''A'')]),
       ObjectTypeDefinition
         (ObjectTypeDefinitionNode (NameNode 38 ''T'') []
            [FieldDefinitionNode (NameNode 42 ''g'') None (NamedType (NameNode 45 ''E''))
               [DirectiveNode (NameNode 48 ''ref'')
                  [ArgumentNode (NameNode 52 ''column'') (StringValue ''x'')]]])]]
     \<lparr>typeDefsMap = [], enumDefsMap = []\<rparr> =
     Inr \<lparr>typeDefsMap =
            [(''T'', ObjectTypeDefinitionNode (NameNode 38 ''T'') []
                [FieldDefinitionNode (NameNode 42 ''g'') None (NamedType (NameNode 45 ''E''))
                   [DirectiveNode (NameNode 48 ''ref'')
                      [ArgumentNode (NameNode 52 ''column'') (StringValue ''x'')]]])],
          enumDefsMap =
            [(''E'', EnumTypeDefinitionNode (NameNode 5 ''E'')
                [DirectiveNode (NameNode 8 ''indexing'')
                   [ArgumentNode (NameNode 17 ''first'') (IntValue 0)]]
                [EnumValueDefinitionNode (NameNode 29 ''A'')])]\<rparr> \<and>
   readSchemaSources
     [[EnumTypeDefinition
         (EnumTypeDefinitionNode (NameNode 5 ''E'')
            [DirectiveNode (NameNode 8 ''indexing'')
               [ArgumentNode (NameNode 17 ''first'') (IntValue 0)]]
            [EnumValueDefinitionNode (NameNode 29 ''A'')]),
       ObjectTypeDefinition
         (ObjectTypeDefinitionNode (NameNode 38 ''T'') []
            [FieldDefinitionNode (NameNode 42 ''g'') None (NamedType (NameNode 45 ''E''))
               [DirectiveNode (NameNode 48 ''ref'')
                  [ArgumentNode (NameNode 52 ''column'') (StringValue ''x'')]]])]] =
     Inl (AssertionError AssertRefDefNode) \<and>
   readSchemaSources
     [[ObjectTypeDefinition
         (ObjectTypeDefinitionNode (NameNode 5 ''T'') []
            [FieldDefinitionNode (NameNode 9 ''f'') None (NamedType (NameNode 12 ''i32''))
               [DirectiveNode (NameNode 17 ''ref'')
                  [ArgumentNode (NameNode 21 ''column'') (StringValue ''x'')]]])]] =
     Inl (AssertionError AssertReferencesTable)"
  by (simp add: reader_defs)

section \<open>Referenced columns, self-references and the placeholder type\<close>

text \<open>
  Take a field with a \<open>ref\<close> directive naming column \<open>x\<close> (a non-empty name) whose type is
  classified as a reference to a table of the table map, and let the first field named
  \<open>x\<close> of that table have a valid type. If that field is not list-wrapped, carries
  \<open>unique\<close> and has a scalar base type, the column is resolved with that scalar type as
  its type and with \<open>references.column = x\<close>, once the file extensions are read. If it is
  list-wrapped, resolution fails with the array-type error as cause; else if it is not
  unique, with the uniqueness error; else if its base type is not scalar, with the
  non-scalar error. The three messages are different.
\<close>

lemma parseFieldNode_referenced_column:
  assumes "validateDirectives (fd_directives fieldNode)
             [DIRECTIVE_REF, DIRECTIVE_UNIQUE, DIRECTIVE_LOCALIZED, DIRECTIVE_FILE,
              DIRECTIVE_FILES_GROUP] = Inr ()"
    and "findDirective (fd_directives fieldNode) (NAME DIRECTIVE_REF) = Some refDirective"
    and "referencesField fieldNode = Inr (Some x)"
    and "x \<noteq> []"
    and "unwrapType fieldNode = Inr unwrapped"
    and "classifyFieldType ctx tableName fieldNode unwrapped = Inr (Some r, classifiedType)"
    and "ref_table r \<noteq> []"
    and "Map_get (typeDefsMap ctx) (ref_table r) = Some target"
    and "find (\<lambda>field. name_value (fd_name field) = x) (obj_fields target) = Some targetField"
    and "unwrapType targetField = Inr targetType"
  shows
    "(\<not> ft_array targetType \<and> isUnique targetField \<and> ft_name targetType \<in> set ScalarTypes \<longrightarrow>
        (\<forall>file files.
           getFileExtension fieldNode = Inr file \<and> getFileGroupExtensions fieldNode = Inr files \<longrightarrow>
           parseFieldNode ctx tableName fieldNode =
             Inr \<lparr>col_name = (if name_value (fd_name fieldNode) = ''_'' then None
                               else Some (name_value (fd_name fieldNode))),
                  col_description = fd_description fieldNode,
                  col_array = ft_array unwrapped,
                  col_type = ft_name targetType,
                  col_unique = isUnique fieldNode,
                  col_localized = isLocalized fieldNode,
                  col_references = Some \<lparr>ref_table = ref_table r, ref_column = Some x\<rparr>,
                  col_until = None,
                  col_file = file,
                  col_files = files\<rparr>)) \<and>
     (ft_array targetType \<longrightarrow>
        parseFieldNode ctx tableName fieldNode =
          Inl (GraphQLError ''An error occurred while validating the referenced column.''
                 [NDirective refDirective]
                 (Some (GraphQLError
                          (CHR 0xD0 # CHR 0xA1 # ''annot refer to a column with an array type.'')
                          [NType (fd_type targetField)] None)))) \<and>
     (\<not> ft_array targetType \<and> \<not> isUnique targetField \<longrightarrow>
        parseFieldNode ctx tableName fieldNode =
          Inl (GraphQLError ''An error occurred while validating the referenced column.''
                 [NDirective refDirective]
                 (Some (GraphQLError ''Values in the referenced column must be unique.''
                          [NField targetField] None)))) \<and>
     (\<not> ft_array targetType \<and> isUnique targetField \<and> ft_name targetType \<notin> set ScalarTypes \<longrightarrow>
        parseFieldNode ctx tableName fieldNode =
          Inl (GraphQLError ''An error occurred while validating the referenced column.''
                 [NDirective refDirective]
                 (Some (GraphQLError
                          (CHR 0xD0 # CHR 0xA1 # ''annot refer to a column with a non-scalar type.'')
                          [NType (fd_type targetField)] None)))) \<and>
     distinct
       [CHR 0xD0 # CHR 0xA1 # ''annot refer to a column with an array type.'',
        ''Values in the referenced column must be unique.'',
        CHR 0xD0 # CHR 0xA1 # ''annot refer to a column with a non-scalar type.'']"
proof -
  have t: "truthy (Some x)" using assms(4) by (simp add: truthy_def)
  note steps = parseFieldNode_steps [OF assms(1) assms(3) assms(5) assms(6)]
  have arr: "ft_array classifiedType = ft_array unwrapped"
    using classifyFieldType_array [OF assms(6)] .
  have r: "r\<lparr>ref_column := Some x\<rparr> = \<lparr>ref_table = ref_table r, ref_column = Some x\<rparr>"
    by simp
  have found: "findReferencedField target x =
    (if ft_array targetType
     then Inl (GraphQLError
                 (CHR 0xD0 # CHR 0xA1 # ''annot refer to a column with an array type.'')
                 [NType (fd_type targetField)] None)
     else if \<not> isUnique targetField
     then Inl (GraphQLError ''Values in the referenced column must be unique.''
                 [NField targetField] None)
     else if ft_name targetType \<notin> set ScalarTypes
     then Inl (GraphQLError
                 (CHR 0xD0 # CHR 0xA1 # ''annot refer to a column with a non-scalar type.'')
                 [NType (fd_type targetField)] None)
     else Inr (Some (ft_name targetType)))"
    using assms(9,10) by (simp add: findReferencedField_def)
  have ok: "parseFieldNode ctx tableName fieldNode =
             Inr \<lparr>col_name = (if name_value (fd_name fieldNode) = ''_'' then None
                               else Some (name_value (fd_name fieldNode))),
                  col_description = fd_description fieldNode,
                  col_array = ft_array unwrapped,
                  col_type = ft_name targetType,
                  col_unique = isUnique fieldNode,
                  col_localized = isLocalized fieldNode,
                  col_references = Some \<lparr>ref_table = ref_table r, ref_column = Some x\<rparr>,
                  col_until = None,
                  col_file = file,
                  col_files = files\<rparr>"
    if "\<not> ft_array targetType" "isUnique targetField" "ft_name targetType \<in> set ScalarTypes"
      "getFileExtension fieldNode = Inr file" "getFileGroupExtensions fieldNode = Inr files"
    for "file" files
    unfolding steps using t assms(2,7,8) that found arr ScalarTypes_nonempty [OF that(3)]
    by (simp add: resolveReferencedColumn_def truthy_def r)
  have bad: "parseFieldNode ctx tableName fieldNode =
          Inl (GraphQLError ''An error occurred while validating the referenced column.''
                 [NDirective refDirective] (Some e))"
    if "findReferencedField target x = Inl e" for e
    unfolding steps using t assms(2,7,8) that by (simp add: resolveReferencedColumn_def)
  show ?thesis
    using ok bad found by simp
qed


text \<open>
  Claim C5. A field without a \<open>ref\<close> directive whose unwrapped type name is the name of
  its own table, whatever that name is: it is classified as \<open>row\<close> with a reference to
  the table and no column; every column resolved from it has type \<open>row\<close> and that
  reference; and it is resolved to such a column once its directives are validated and
  its file extensions are read.
\<close>

theorem C5_self_reference:
  assumes "unwrapType fieldNode = Inr unwrapped"
    and "ft_name unwrapped = tableName"
    and "findDirective (fd_directives fieldNode) (NAME DIRECTIVE_REF) = None"
  shows
    "classifyFieldType ctx tableName fieldNode unwrapped =
       Inr (Some \<lparr>ref_table = tableName, ref_column = None\<rparr>, unwrapped\<lparr>ft_name := ''row''\<rparr>) \<and>
     (\<forall>column. parseFieldNode ctx tableName fieldNode = Inr column \<longrightarrow>
        col_type column = ''row'' \<and>
        col_references column = Some \<lparr>ref_table = tableName, ref_column = None\<rparr>) \<and>
     (\<forall>fileExt filesExt.
        validateDirectives (fd_directives fieldNode)
          [DIRECTIVE_REF, DIRECTIVE_UNIQUE, DIRECTIVE_LOCALIZED, DIRECTIVE_FILE,
           DIRECTIVE_FILES_GROUP] = Inr () \<and>
        getFileExtension fieldNode = Inr fileExt \<and>
        getFileGroupExtensions fieldNode = Inr filesExt \<longrightarrow>
        parseFieldNode ctx tableName fieldNode =
          Inr \<lparr>col_name = (if name_value (fd_name fieldNode) = ''_'' then None
                            else Some (name_value (fd_name fieldNode))),
               col_description = fd_description fieldNode,
               col_array = ft_array unwrapped,
               col_type = ''row'',
               col_unique = isUnique fieldNode,
               col_localized = isLocalized fieldNode,
               col_references = Some \<lparr>ref_table = tableName, ref_column = None\<rparr>,
               col_until = None,
               col_file = fileExt,
               col_files = filesExt\<rparr>)"
proof -
  have c: "classifyFieldType ctx tableName fieldNode unwrapped =
       Inr (Some \<lparr>ref_table = tableName, ref_column = None\<rparr>, unwrapped\<lparr>ft_name := ''row''\<rparr>)"
    using assms(2) by (simp add: classifyFieldType_def)
  have rf: "referencesField fieldNode = Inr None"
    using referencesField_absent [OF assms(3)] .
  have a: "col_type column = ''row'' \<and>
        col_references column = Some \<lparr>ref_table = tableName, ref_column = None\<rparr>"
    if "parseFieldNode ctx tableName fieldNode = Inr column" for column
    using parseFieldNode_Inr [OF that] assms(1) c rf by (auto simp: truthy_def)
  have b: "parseFieldNode ctx tableName fieldNode =
          Inr \<lparr>col_name = (if name_value (fd_name fieldNode) = ''_'' then None
                            else Some (name_value (fd_name fieldNode))),
               col_description = fd_description fieldNode,
               col_array = ft_array unwrapped,
               col_type = ''row'',
               col_unique = isUnique fieldNode,
               col_localized = isLocalized fieldNode,
               col_references = Some \<lparr>ref_table = tableName, ref_column = None\<rparr>,
               col_until = None,
               col_file = fileExt,
               col_files = filesExt\<rparr>"
    if "validateDirectives (fd_directives fieldNode)
          [DIRECTIVE_REF, DIRECTIVE_UNIQUE, DIRECTIVE_LOCALIZED, DIRECTIVE_FILE,
           DIRECTIVE_FILES_GROUP] = Inr ()"
      "getFileExtension fieldNode = Inr fileExt" "getFileGroupExtensions fieldNode = Inr filesExt"
    for fileExt filesExt
    unfolding parseFieldNode_steps [OF that(1) rf assms(1) c] using that(2,3)
    by (simp add: truthy_def)
  show ?thesis using a b c by blast
qed

theorem C5_self_reference_witness:
  "parseFieldNode
     \<lparr>typeDefsMap =
        [(''i32'', ObjectTypeDefinitionNode (NameNode 5 ''i32'') []
            [FieldDefinitionNode (NameNode 11 ''next'') None (NamedType (NameNode 17 ''i32'')) []])],
      enumDefsMap = []\<rparr>
     ''i32''
     (FieldDefinitionNode (NameNode 11 ''next'') None (NamedType (NameNode 17 ''i32'')) []) =
     Inr \<lparr>col_name = Some ''next'', col_description = None, col_array = False, col_type = ''row'',
          col_unique = False, col_localized = False,
          col_references = Some \<lparr>ref_table = ''i32'', ref_column = None\<rparr>,
          col_until = None, col_file = None, col_files = None\<rparr> \<and>
   parseFieldNode
     \<lparr>typeDefsMap =
        [(''rid'', ObjectTypeDefinitionNode (NameNode 5 ''rid'') []
            [FieldDefinitionNode (NameNode 11 ''all'') None
               (ListType (NamedType (NameNode 17 ''rid''))) []])],
      enumDefsMap = []\<rparr>
     ''rid''
     (FieldDefinitionNode (NameNode 11 ''all'') None (ListType (NamedType (NameNode 17 ''rid''))) []) =
     Inr \<lparr>col_name = Some ''all'', col_description = None, col_array = True, col_type = ''row'',
          col_unique = False, col_localized = False,
          col_references = Some \<lparr>ref_table = ''rid'', ref_column = None\<rparr>,
          col_until = None, col_file = None, col_files = None\<rparr>"
proof -
  let ?f = "FieldDefinitionNode (NameNode 11 ''next'') None (NamedType (NameNode 17 ''i32'')) []"
  let ?g = "FieldDefinitionNode (NameNode 11 ''all'') None (ListType (NamedType (NameNode 17 ''rid''))) []"
  let ?c = "\<lparr>typeDefsMap = [(''i32'', ObjectTypeDefinitionNode (NameNode 5 ''i32'') [] [?f])],
            enumDefsMap = []\<rparr>"
  let ?d = "\<lparr>typeDefsMap = [(''rid'', ObjectTypeDefinitionNode (NameNode 5 ''rid'') [] [?g])],
            enumDefsMap = []\<rparr>"
  have f: "parseFieldNode ?c ''i32'' ?f =
     Inr \<lparr>col_name = Some ''next'', col_description = None, col_array = False, col_type = ''row'',
          col_unique = False, col_localized = False,
          col_references = Some \<lparr>ref_table = ''i32'', ref_column = None\<rparr>,
          col_until = None, col_file = None, col_files = None\<rparr>"
    using C5_self_reference [of ?f "\<lparr>ft_array = False, ft_name = ''i32''\<rparr>" "''i32''" ?c,
        THEN conjunct2, THEN conjunct2, rule_format, of None None]
    by (simp add: unwrapType_def findDirective_def getFileExtension_def
        getFileGroupExtensions_def isUnique_def isLocalized_def)
  have g: "parseFieldNode ?d ''rid'' ?g =
     Inr \<lparr>col_name = Some ''all'', col_description = None, col_array = True, col_type = ''row'',
          col_unique = False, col_localized = False,
          col_references = Some \<lparr>ref_table = ''rid'', ref_column = None\<rparr>,
          col_until = None, col_file = None, col_files = None\<rparr>"
    using C5_self_reference [of ?g "\<lparr>ft_array = True, ft_name = ''rid''\<rparr>" "''rid''" ?d,
        THEN conjunct2, THEN conjunct2, rule_format, of None None]
    by (simp add: unwrapType_def findDirective_def getFileExtension_def
        getFileGroupExtensions_def isUnique_def isLocalized_def)
  show ?thesis using f g by simp
qed

text \<open>
  Claim C7, as amended. A field declared with the type \<open>[_]\<close> in a table that is not
  itself named \<open>_\<close>: every column resolved from it has type \<open>array\<close> and the array flag
  set, and it is resolved once its directives are validated, it has no \<open>ref\<close> directive and
  its file extensions are read. A field declared with the bare type \<open>_\<close>: unwrapping its
  type fails with the placeholder-type error, its resolution always fails, and it fails
  with that error whenever the directives of the field are validated and its \<open>ref\<close>
  directive is read (both come before the type is unwrapped).
\<close>

theorem C7_placeholder_type:
  "(fd_type fieldNode = ListType (NamedType n) \<and> name_value n = ''_'' \<and> tableName \<noteq> ''_'' \<longrightarrow>
      (\<forall>column. parseFieldNode ctx tableName fieldNode = Inr column \<longrightarrow>
         col_type column = ''array'' \<and> col_array column) \<and>
      (\<forall>fileExt filesExt.
         validateDirectives (fd_directives fieldNode)
           [DIRECTIVE_REF, DIRECTIVE_UNIQUE, DIRECTIVE_LOCALIZED, DIRECTIVE_FILE,
            DIRECTIVE_FILES_GROUP] = Inr () \<and>
         findDirective (fd_directives fieldNode) (NAME DIRECTIVE_REF) = None \<and>
         getFileExtension fieldNode = Inr fileExt \<and>
         getFileGroupExtensions fieldNode = Inr filesExt \<longrightarrow>
         parseFieldNode ctx tableName fieldNode =
           Inr \<lparr>col_name = (if name_value (fd_name fieldNode) = ''_'' then None
                             else Some (name_value (fd_name fieldNode))),
                col_description = fd_description fieldNode,
                col_array = True,
                col_type = ''array'',
                col_unique = isUnique fieldNode,
                col_localized = isLocalized fieldNode,
                col_references = None,
                col_until = None,
                col_file = fileExt,
                col_files = filesExt\<rparr>)) \<and>
   (fd_type fieldNode = NamedType n \<and> name_value n = ''_'' \<longrightarrow>
      unwrapType fieldNode =
        Inl (GraphQLError ''Unknown type is only allowed inside an array.''
               [NType (fd_type fieldNode)] None) \<and>
      (\<exists>e. parseFieldNode ctx tableName fieldNode = Inl e) \<and>
      (validateDirectives (fd_directives fieldNode)
         [DIRECTIVE_REF, DIRECTIVE_UNIQUE, DIRECTIVE_LOCALIZED, DIRECTIVE_FILE,
          DIRECTIVE_FILES_GROUP] = Inr () \<and>
       (\<exists>refFieldName. referencesField fieldNode = Inr refFieldName) \<longrightarrow>
       parseFieldNode ctx tableName fieldNode =
         Inl (GraphQLError ''Unknown type is only allowed inside an array.''
                [NType (fd_type fieldNode)] None)))"
proof (intro conjI impI)
  assume h: "fd_type fieldNode = ListType (NamedType n) \<and> name_value n = ''_'' \<and> tableName \<noteq> ''_''"
  have u: "unwrapType fieldNode = Inr \<lparr>ft_array = True, ft_name = ''_''\<rparr>"
    using h by (simp add: unwrapType_def)
  have c: "classifyFieldType ctx tableName fieldNode \<lparr>ft_array = True, ft_name = ''_''\<rparr> =
             Inr (None, \<lparr>ft_array = True, ft_name = ''array''\<rparr>)"
    using h by (auto simp: classifyFieldType_def)
  show "\<forall>column. parseFieldNode ctx tableName fieldNode = Inr column \<longrightarrow>
         col_type column = ''array'' \<and> col_array column"
  proof (intro allI impI)
    fix column assume p: "parseFieldNode ctx tableName fieldNode = Inr column"
    show "col_type column = ''array'' \<and> col_array column"
      using parseFieldNode_Inr [OF p] u c
      by (auto simp: resolveReferencedColumn_def split: if_splits)
  qed
  show "\<forall>fileExt filesExt.
         validateDirectives (fd_directives fieldNode)
           [DIRECTIVE_REF, DIRECTIVE_UNIQUE, DIRECTIVE_LOCALIZED, DIRECTIVE_FILE,
            DIRECTIVE_FILES_GROUP] = Inr () \<and>
         findDirective (fd_directives fieldNode) (NAME DIRECTIVE_REF) = None \<and>
         getFileExtension fieldNode = Inr fileExt \<and>
         getFileGroupExtensions fieldNode = Inr filesExt \<longrightarrow>
         parseFieldNode ctx tableName fieldNode =
           Inr \<lparr>col_name = (if name_value (fd_name fieldNode) = ''_'' then None
                             else Some (name_value (fd_name fieldNode))),
                col_description = fd_description fieldNode,
                col_array = True,
                col_type = ''array'',
                col_unique = isUnique fieldNode,
                col_localized = isLocalized fieldNode,
                col_references = None,
                col_until = None,
                col_file = fileExt,
                col_files = filesExt\<rparr>"
  proof (intro allI impI, elim conjE)
    fix fileExt filesExt
    assume v: "validateDirectives (fd_directives fieldNode)
           [DIRECTIVE_REF, DIRECTIVE_UNIQUE, DIRECTIVE_LOCALIZED, DIRECTIVE_FILE,
            DIRECTIVE_FILES_GROUP] = Inr ()"
      and d: "findDirective (fd_directives fieldNode) (NAME DIRECTIVE_REF) = None"
      and g: "getFileExtension fieldNode = Inr fileExt"
        "getFileGroupExtensions fieldNode = Inr filesExt"
    show "parseFieldNode ctx tableName fieldNode =
           Inr \<lparr>col_name = (if name_value (fd_name fieldNode) = ''_'' then None
                             else Some (name_value (fd_name fieldNode))),
                col_description = fd_description fieldNode,
                col_array = True,
                col_type = ''array'',
                col_unique = isUnique fieldNode,
                col_localized = isLocalized fieldNode,
                col_references = None,
                col_until = None,
                col_file = fileExt,
                col_files = filesExt\<rparr>"
      unfolding parseFieldNode_steps [OF v referencesField_absent [OF d] u c] using g
      by (simp add: truthy_def)
  qed
next
  assume h: "fd_type fieldNode = NamedType n \<and> name_value n = ''_''"
  then show u: "unwrapType fieldNode =
        Inl (GraphQLError ''Unknown type is only allowed inside an array.''
               [NType (fd_type fieldNode)] None)"
    by (simp add: unwrapType_def)
  show "\<exists>e. parseFieldNode ctx tableName fieldNode = Inl e"
    using u by (auto simp: parseFieldNode_def Let_def split: sum.splits)
  assume "validateDirectives (fd_directives fieldNode)
         [DIRECTIVE_REF, DIRECTIVE_UNIQUE, DIRECTIVE_LOCALIZED, DIRECTIVE_FILE,
          DIRECTIVE_FILES_GROUP] = Inr () \<and>
       (\<exists>refFieldName. referencesField fieldNode = Inr refFieldName)"
  then show "parseFieldNode ctx tableName fieldNode =
         Inl (GraphQLError ''Unknown type is only allowed inside an array.''
                [NType (fd_type fieldNode)] None)"
    using u by (auto simp: parseFieldNode_def Let_def)
qed


theorem C7_placeholder_type_witness:
  "parseFieldNode
     \<lparr>typeDefsMap =
        [(''T'', ObjectTypeDefinitionNode (NameNode 5 ''T'') []
            [FieldDefinitionNode (NameNode 9 ''f'') None
               (ListType (NamedType (NameNode 13 ''_''))) [],
             FieldDefinitionNode (NameNode 18 ''g'') None (NamedType (NameNode 21 ''_'')) []])],
      enumDefsMap = []\<rparr>
     ''T''
     (FieldDefinitionNode (NameNode 9 ''f'') None (ListType (NamedType (NameNode 13 ''_''))) []) =
     Inr \<lparr>col_name = Some ''f'', col_description = None, col_array = True, col_type = ''array'',
          col_unique = False, col_localized = False, col_references = None,
          col_until = None, col_file = None, col_files = None\<rparr> \<and>
   parseFieldNode
     \<lparr>typeDefsMap =
        [(''T'', ObjectTypeDefinitionNode (NameNode 5 ''T'') []
            [FieldDefinitionNode (NameNode 9 ''f'') None
               (ListType (NamedType (NameNode 13 ''_''))) [],
             FieldDefinitionNode (NameNode 18 ''g'') None (NamedType (NameNode 21 ''_'')) []])],
      enumDefsMap = []\<rparr>
     ''T''
     (FieldDefinitionNode (NameNode 18 ''g'') None (NamedType (NameNode 21 ''_'')) []) =
     Inl (GraphQLError ''Unknown type is only allowed inside an array.''
            [NType (NamedType (NameNode 21 ''_''))] None)"
proof -
  let ?f = "FieldDefinitionNode (NameNode 9 ''f'') None (ListType (NamedType (NameNode 13 ''_''))) []"
  let ?g = "FieldDefinitionNode (NameNode 18 ''g'') None (NamedType (NameNode 21 ''_'')) []"
  let ?c = "\<lparr>typeDefsMap = [(''T'', ObjectTypeDefinitionNode (NameNode 5 ''T'') [] [?f, ?g])],
            enumDefsMap = []\<rparr>"
  have f: "parseFieldNode ?c ''T'' ?f =
     Inr \<lparr>col_name = Some ''f'', col_description = None, col_array = True, col_type = ''array'',
          col_unique = False, col_localized = False, col_references = None,
          col_until = None, col_file = None, col_files = None\<rparr>"
    using C7_placeholder_type [of ?f "NameNode 13 ''_''" "''T''" ?c, THEN conjunct1, rule_format,
        THEN conjunct2, rule_format, of None None]
    by (simp add: findDirective_def getFileExtension_def getFileGroupExtensions_def
        isUnique_def isLocalized_def)
  have g: "parseFieldNode ?c ''T'' ?g =
     Inl (GraphQLError ''Unknown type is only allowed inside an array.''
            [NType (NamedType (NameNode 21 ''_''))] None)"
    using C7_placeholder_type [of ?g "NameNode 21 ''_''" "''T''" ?c, THEN conjunct2, rule_format,
        THEN conjunct2, THEN conjunct2, rule_format]
    by (simp add: referencesField_def findDirective_def)
  show ?thesis using f g by simp
qed

text \<open>
  Claim C7 as stated fails on \<^verbatim>\<open>type _ { f: [_] }\<close>, where the field is a reference to its
  own table, and on \<^verbatim>\<open>type T { g: _ @foo }\<close>, which fails on the directive.
\<close>

theorem C7_placeholder_type_counterexample:
  "readSchemaSources
     [[ObjectTypeDefinition
         (ObjectTypeDefinitionNode (NameNode 5 ''_'') []
            [FieldDefinitionNode (NameNode 9 ''f'') None
               (ListType (NamedType (NameNode 13 ''_''))) []])]] =
     Inr \<lparr>tables =
            [\<lparr>tbl_name = ''_'',
              tbl_columns =
                [\<lparr>col_name = Some ''f'', col_description = None, col_array = True,
                  col_type = ''row'', col_unique = False, col_localized = False,
                  col_references = Some \<lparr>ref_table = ''_'', ref_column = None\<rparr>,
                  col_until = None, col_file = None, col_files = None\<rparr>],
              tbl_tags = []\<rparr>],
          enumerations = []\<rparr> \<and>
   readSchemaSources
     [[ObjectTypeDefinition
         (ObjectTypeDefinitionNode (NameNode 5 ''T'') []
            [FieldDefinitionNode (NameNode 9 ''g'') None (NamedType (NameNode 12 ''_''))
               [DirectiveNode (NameNode 15 ''foo'') []]])]] =
     Inl (GraphQLError ''Unknown directive \"foo\".'' [NName (NameNode 15 ''foo'')] None)"
  by (simp add: reader_defs)

section \<open>The run over all sources\<close>

text \<open>
  The symbol maps that the two loops over the sources build, and what a successful run
  returns: a table for every table definition, with a column for every field, each
  resolved by \<^verbatim>\<open>parseFieldNode\<close> under the complete maps.
\<close>

lemma Map_set_absent: "\<not> Map_has m k \<Longrightarrow> Map_set m k v = m @ [(k, v)]"
  by (induction m) (auto simp: Map_has_def split: if_splits)

lemma Map_has_append: "Map_has (m @ [(k, v)]) k' \<longleftrightarrow> Map_has m k' \<or> k' = k"
  by (auto simp: Map_has_def map_add_def split: option.splits)

lemma Map_has_keys: "Map_has m k \<longleftrightarrow> k \<in> fst ` set m"
  by (simp add: Map_has_def map_of_eq_None_iff)

lemma collectDefinitions_error: "collectDefinitions defs ctx = Inl e \<Longrightarrow> is_GraphQLError e"
  by (induction defs arbitrary: ctx) (auto split: definition_node.splits if_splits)

lemma collectDefinitions_append:
  "collectDefinitions (xs @ ys) ctx =
     (case collectDefinitions xs ctx of Inl e \<Rightarrow> Inl e | Inr ctx' \<Rightarrow> collectDefinitions ys ctx')"
  by (induction xs arbitrary: ctx) (auto split: definition_node.splits)

lemma collectSources_concat: "collectSources docs ctx = collectDefinitions (concat docs) ctx"
  by (induction docs arbitrary: ctx) (auto simp: collectDefinitions_append split: sum.splits)

lemma collectDefinitions_Inr:
  "collectDefinitions defs ctx = Inr ctx' \<longleftrightarrow>
     OtherDefinition \<notin> set defs \<and>
     distinct (map (\<lambda>ob. name_value (obj_name ob)) [ob. ObjectTypeDefinition ob \<leftarrow> defs]) \<and>
     (\<forall>ob \<in> set [ob. ObjectTypeDefinition ob \<leftarrow> defs].
        \<not> Map_has (typeDefsMap ctx) (name_value (obj_name ob))) \<and>
     distinct (map (\<lambda>en. name_value (en_name en)) [en. EnumTypeDefinition en \<leftarrow> defs]) \<and>
     (\<forall>en \<in> set [en. EnumTypeDefinition en \<leftarrow> defs].
        \<not> Map_has (enumDefsMap ctx) (name_value (en_name en))) \<and>
     ctx' = \<lparr>typeDefsMap = typeDefsMap ctx @
               map (\<lambda>ob. (name_value (obj_name ob), ob)) [ob. ObjectTypeDefinition ob \<leftarrow> defs],
            enumDefsMap = enumDefsMap ctx @
               map (\<lambda>en. (name_value (en_name en), en)) [en. EnumTypeDefinition en \<leftarrow> defs]\<rparr>"
proof (induction defs arbitrary: ctx)
  case Nil
  then show ?case by auto
next
  case (Cons d defs)
  show ?case
  proof (cases d)
    case (EnumTypeDefinition en)
    show ?thesis
    proof (cases "Map_has (enumDefsMap ctx) (name_value (en_name en))")
      case True
      then show ?thesis using EnumTypeDefinition by auto
    next
      case False
      show ?thesis
        using EnumTypeDefinition False
        by (simp add: Cons.IH Map_set_absent Map_has_append) (auto simp: image_iff)
    qed
  next
    case (ObjectTypeDefinition ob)
    show ?thesis
    proof (cases "Map_has (typeDefsMap ctx) (name_value (obj_name ob))")
      case True
      then show ?thesis using ObjectTypeDefinition by auto
    next
      case False
      show ?thesis
        using ObjectTypeDefinition False
        by (simp add: Cons.IH Map_set_absent Map_has_append) (auto simp: image_iff)
    qed
  next
    case OtherDefinition
    then show ?thesis by simp
  qed
qed


lemma parseTables_Inr:
  "parseTables ctx typeNodes = Inr tbls \<longleftrightarrow>
   list_all2 (\<lambda>typeNode table. parseTableNode ctx typeNode = Inr table) typeNodes tbls"
proof (induction typeNodes arbitrary: tbls)
  case Nil
  then show ?case by auto
next
  case (Cons typeNode rest)
  show ?case
  proof (cases "parseTableNode ctx typeNode")
    case (Inl e)
    then show ?thesis by (auto simp: list_all2_Cons1)
  next
    case t: (Inr table)
    show ?thesis
    proof (cases "parseTables ctx rest")
      case (Inl e)
      then show ?thesis using t Cons.IH by (auto simp: list_all2_Cons1)
    next
      case (Inr parsed)
      then have "list_all2 (\<lambda>typeNode table. parseTableNode ctx typeNode = Inr table) rest ts
                 \<longleftrightarrow> ts = parsed" for ts
        using Cons.IH [of ts] by auto
      then show ?thesis using t Inr by (auto simp: list_all2_Cons1)
    qed
  qed
qed

lemma parseEnums_Inr:
  "parseEnums enumNodes = Inr enums \<longleftrightarrow>
   list_all2 (\<lambda>enumNode enumeration. parseEnumNode enumNode = Inr enumeration) enumNodes enums"
proof (induction enumNodes arbitrary: enums)
  case Nil
  then show ?case by auto
next
  case (Cons enumNode rest)
  show ?case
  proof (cases "parseEnumNode enumNode")
    case (Inl e)
    then show ?thesis by (auto simp: list_all2_Cons1)
  next
    case t: (Inr enumeration)
    show ?thesis
    proof (cases "parseEnums rest")
      case (Inl e)
      then show ?thesis using t Cons.IH by (auto simp: list_all2_Cons1)
    next
      case (Inr parsed)
      then have "list_all2 (\<lambda>enumNode enumeration. parseEnumNode enumNode = Inr enumeration)
                   rest es \<longleftrightarrow> es = parsed" for es
        using Cons.IH [of es] by auto
      then show ?thesis using t Inr by (auto simp: list_all2_Cons1)
    qed
  qed
qed

lemma parseFields_Inr:
  "parseFields ctx tableName fieldNodes columns = Inr result \<Longrightarrow>
   \<exists>new. result = columns @ new \<and>
     list_all2 (\<lambda>fieldNode column. parseFieldNode ctx tableName fieldNode = Inr column)
       fieldNodes new"
proof (induction fieldNodes arbitrary: columns)
  case Nil
  then show ?case by simp
next
  case (Cons fieldNode rest)
  from Cons.prems obtain column where
    c: "parseFieldNode ctx tableName fieldNode = Inr column" and
    r: "parseFields ctx tableName rest (columns @ [column]) = Inr result"
    by (auto split: sum.splits if_splits)
  from Cons.IH [OF r] obtain new where
    "result = (columns @ [column]) @ new"
    "list_all2 (\<lambda>fieldNode column. parseFieldNode ctx tableName fieldNode = Inr column) rest new"
    by blast
  then show ?case using c by (intro exI [of _ "column # new"]) simp
qed

lemma parseTableNode_Inr:
  assumes "parseTableNode ctx typeNode = Inr table"
  shows "tbl_name table = name_value (obj_name typeNode) \<and>
         list_all2 (\<lambda>fieldNode column.
             parseFieldNode ctx (name_value (obj_name typeNode)) fieldNode = Inr column)
           (obj_fields typeNode) (tbl_columns table)"
proof -
  from assms obtain columns where
    p: "parseFields ctx (name_value (obj_name typeNode)) (obj_fields typeNode) [] = Inr columns"
    and t: "tbl_name table = name_value (obj_name typeNode)" "tbl_columns table = columns"
    by (auto simp: parseTableNode_def split: sum.splits)
  from parseFields_Inr [OF p] t show ?thesis by auto
qed

lemma parseFieldNode_type:
  assumes "parseFieldNode ctx tableName fieldNode = Inr column"
  shows "col_type column \<in>
           {''bool'', ''string'', ''i16'', ''i32'', ''f32'', ''row'', ''foreignrow'', ''enumrow'',
            ''array''}"
proof -
  from parseFieldNode_Inr [OF assms] obtain refFieldName unwrapped classified classifiedType
      references fieldType where
    c: "classifyFieldType ctx tableName fieldNode unwrapped = Inr (classified, classifiedType)" and
    r: "(if truthy refFieldName
         then resolveReferencedColumn ctx fieldNode (the refFieldName) classified classifiedType
         else Inr (classified, classifiedType)) = Inr (references, fieldType)" and
    t: "col_type column = ft_name fieldType"
    by blast
  have "ft_name fieldType \<in> set ScalarTypes \<or> ft_name fieldType = ''array'' \<or>
        ft_name fieldType = ''row'' \<or> ft_name fieldType = ''foreignrow'' \<or>
        ft_name fieldType = ''enumrow''"
    using r classifyFieldType_closed [OF c]
    by (auto split: if_splits dest: resolveReferencedColumn_scalar)
  then show ?thesis unfolding t by (auto simp: ScalarTypes_def)
qed

lemma parseFieldNode_array:
  assumes "parseFieldNode ctx tableName fieldNode = Inr column"
  shows "col_array column = (\<exists>inner. fd_type fieldNode = ListType inner)"
proof -
  from parseFieldNode_Inr [OF assms] obtain refFieldName unwrapped classified classifiedType
      references fieldType where
    u: "unwrapType fieldNode = Inr unwrapped" and
    c: "classifyFieldType ctx tableName fieldNode unwrapped = Inr (classified, classifiedType)" and
    r: "(if truthy refFieldName
         then resolveReferencedColumn ctx fieldNode (the refFieldName) classified classifiedType
         else Inr (classified, classifiedType)) = Inr (references, fieldType)" and
    a: "col_array column = ft_array fieldType"
    by blast
  have "ft_array fieldType = ft_array unwrapped"
    using r classifyFieldType_array [OF c]
    by (auto split: if_splits dest: resolveReferencedColumn_array)
  moreover have "ft_array unwrapped = (\<exists>inner. fd_type fieldNode = ListType inner)"
    using u by (auto simp: unwrapType_def Let_def split: type_node.splits if_splits)
  ultimately show ?thesis using a by simp
qed

lemma parseFields_error:
  "parseFields ctx tableName fieldNodes columns = Inl e \<Longrightarrow> e \<noteq> AssertionError AssertColumnType"
proof (induction fieldNodes arbitrary: columns)
  case Nil
  then show ?case by simp
next
  case (Cons fieldNode rest)
  then show ?case
    by (auto split: sum.splits if_splits dest: parseFieldNode_error)
qed

lemma parseTableNode_error:
  "parseTableNode ctx typeNode = Inl e \<Longrightarrow> e \<noteq> AssertionError AssertColumnType"
  by (auto simp: parseTableNode_def split: sum.splits
      dest: validateDirectives_error getTags_error parseFields_error)

lemma parseTables_error:
  "parseTables ctx typeNodes = Inl e \<Longrightarrow> e \<noteq> AssertionError AssertColumnType"
  by (induction typeNodes) (auto split: sum.splits dest: parseTableNode_error)

lemma collectEnumerators_error:
  "collectEnumerators valueNodes enumerators = Inl e \<Longrightarrow> is_GraphQLError e"
  by (induction valueNodes arbitrary: enumerators) (auto split: if_splits)

lemma parseEnumNode_error:
  "parseEnumNode enumNode = Inl e \<Longrightarrow> e \<noteq> AssertionError AssertColumnType"
  by (auto simp: parseEnumNode_def split: sum.splits option.splits
      dest: validateDirectives_error getIndexingBase_error collectEnumerators_error)

lemma parseEnums_error:
  "parseEnums enumNodes = Inl e \<Longrightarrow> e \<noteq> AssertionError AssertColumnType"
  by (induction enumNodes) (auto split: sum.splits dest: parseEnumNode_error)

text \<open>
  Claim C4. When \<^verbatim>\<open>readSchemaSources\<close> succeeds, the type of every column of every table
  returned is one of the nine values \<open>bool\<close>, \<open>string\<close>, \<open>i16\<close>, \<open>i32\<close>, \<open>f32\<close>, \<open>row\<close>,
  \<open>foreignrow\<close>, \<open>enumrow\<close>, \<open>array\<close>. The closing assertion on the type never fails, neither
  in a run of \<^verbatim>\<open>readSchemaSources\<close> nor in any call of \<^verbatim>\<open>parseFieldNode\<close>. The array flag
  of a resolved column says whether the declared type of its field is list-wrapped,
  whichever of the nine values its type is.
\<close>

theorem C4_column_types:
  "(\<forall>out. readSchemaSources sources = Inr out \<longrightarrow>
      (\<forall>table \<in> set (tables out). \<forall>column \<in> set (tbl_columns table).
         col_type column \<in>
           {''bool'', ''string'', ''i16'', ''i32'', ''f32'', ''row'', ''foreignrow'', ''enumrow'',
            ''array''})) \<and>
   readSchemaSources sources \<noteq> Inl (AssertionError AssertColumnType) \<and>
   parseFieldNode ctx tableName fieldNode \<noteq> Inl (AssertionError AssertColumnType) \<and>
   (\<forall>column. parseFieldNode ctx tableName fieldNode = Inr column \<longrightarrow>
      col_array column = (\<exists>inner. fd_type fieldNode = ListType inner))"
proof (intro conjI allI impI ballI)
  fix out table column
  assume ok: "readSchemaSources sources = Inr out"
    and t: "table \<in> set (tables out)" and c: "column \<in> set (tbl_columns table)"
  from ok obtain ctx' where
    "parseTables ctx' (Map_values (typeDefsMap ctx')) = Inr (tables out)"
    by (auto simp: readSchemaSources_def split: sum.splits)
  then have "list_all2 (\<lambda>typeNode table. parseTableNode ctx' typeNode = Inr table)
               (Map_values (typeDefsMap ctx')) (tables out)"
    by (simp add: parseTables_Inr)
  with t obtain typeNode where "parseTableNode ctx' typeNode = Inr table"
    by (auto simp: in_set_conv_nth list_all2_conv_all_nth)
  from parseTableNode_Inr [OF this] c obtain fieldNode' where
    "parseFieldNode ctx' (name_value (obj_name typeNode)) fieldNode' = Inr column"
    by (auto simp: in_set_conv_nth list_all2_conv_all_nth)
  then show "col_type column \<in>
           {''bool'', ''string'', ''i16'', ''i32'', ''f32'', ''row'', ''foreignrow'', ''enumrow'',
            ''array''}"
    by (rule parseFieldNode_type)
next
  show "readSchemaSources sources \<noteq> Inl (AssertionError AssertColumnType)"
    by (auto simp: readSchemaSources_def collectSources_concat split: sum.splits
        dest: collectDefinitions_error parseTables_error parseEnums_error)
next
  show "parseFieldNode ctx tableName fieldNode \<noteq> Inl (AssertionError AssertColumnType)"
    using parseFieldNode_error [of ctx tableName fieldNode "AssertionError AssertColumnType"]
    by auto
next
  fix column assume "parseFieldNode ctx tableName fieldNode = Inr column"
  then show "col_array column = (\<exists>inner. fd_type fieldNode = ListType inner)"
    by (rule parseFieldNode_array)
qed


theorem C4_column_types_witness:
  "readSchemaSources
     [[ObjectTypeDefinition
         (ObjectTypeDefinitionNode (NameNode 5 ''T'') []
            [FieldDefinitionNode (NameNode 9 ''x'') None (NamedType (NameNode 12 ''i32''))
               [DirectiveNode (NameNode 17 ''unique'') []],
             FieldDefinitionNode (NameNode 24 ''f'') None
               (ListType (NamedType (NameNode 28 ''T''))) [],
             FieldDefinitionNode (NameNode 31 ''a'') None
               (ListType (NamedType (NameNode 35 ''_''))) []])]] =
     Inr \<lparr>tables =
            [\<lparr>tbl_name = ''T'',
              tbl_columns =
                [\<lparr>col_name = Some ''x'', col_description = None, col_array = False,
                  col_type = ''i32'', col_unique = True, col_localized = False,
                  col_references = None, col_until = None, col_file = None, col_files = None\<rparr>,
                 \<lparr>col_name = Some ''f'', col_description = None, col_array = True,
                  col_type = ''row'', col_unique = False, col_localized = False,
                  col_references = Some \<lparr>ref_table = ''T'', ref_column = None\<rparr>,
                  col_until = None, col_file = None, col_files = None\<rparr>,
                 \<lparr>col_name = Some ''a'', col_description = None, col_array = True,
                  col_type = ''array'', col_unique = False, col_localized = False,
                  col_references = None, col_until = None, col_file = None, col_files = None\<rparr>],
              tbl_tags = []\<rparr>],
          enumerations = []\<rparr> \<and>
   set [''i32'', ''row'', ''array''] \<subseteq>
     {''bool'', ''string'', ''i16'', ''i32'', ''f32'', ''row'', ''foreignrow'', ''enumrow'', ''array''}"
proof -
  let ?x = "FieldDefinitionNode (NameNode 9 ''x'') None (NamedType (NameNode 12 ''i32''))
               [DirectiveNode (NameNode 17 ''unique'') []]"
  let ?f = "FieldDefinitionNode (NameNode 24 ''f'') None
               (ListType (NamedType (NameNode 28 ''T''))) []"
  let ?a = "FieldDefinitionNode (NameNode 31 ''a'') None
               (ListType (NamedType (NameNode 35 ''_''))) []"
  let ?T = "ObjectTypeDefinitionNode (NameNode 5 ''T'') [] [?x, ?f, ?a]"
  let ?cx = "\<lparr>col_name = Some ''x'', col_description = None, col_array = False,
                  col_type = ''i32'', col_unique = True, col_localized = False,
                  col_references = None, col_until = None, col_file = None, col_files = None\<rparr>"
  let ?cf = "\<lparr>col_name = Some ''f'', col_description = None, col_array = True,
                  col_type = ''row'', col_unique = False, col_localized = False,
                  col_references = Some \<lparr>ref_table = ''T'', ref_column = None\<rparr>,
                  col_until = None, col_file = None, col_files = None\<rparr>"
  let ?ca = "\<lparr>col_name = Some ''a'', col_description = None, col_array = True,
                  col_type = ''array'', col_unique = False, col_localized = False,
                  col_references = None, col_until = None, col_file = None, col_files = None\<rparr>"
  let ?out = "\<lparr>tables = [\<lparr>tbl_name = ''T'', tbl_columns = [?cx, ?cf, ?ca], tbl_tags = []\<rparr>],
              enumerations = []\<rparr>"
  have ok: "readSchemaSources [[ObjectTypeDefinition ?T]] = Inr ?out"
    by (simp add: reader_defs)
  have "\<forall>table \<in> set (tables ?out). \<forall>column \<in> set (tbl_columns table).
         col_type column \<in>
           {''bool'', ''string'', ''i16'', ''i32'', ''f32'', ''row'', ''foreignrow'', ''enumrow'',
            ''array''}"
    using C4_column_types [of "[[ObjectTypeDefinition ?T]]"
        "\<lparr>typeDefsMap = [(''T'', ?T)], enumDefsMap = []\<rparr>" "''T''" ?f, THEN conjunct1] ok
    by blast
  then have "set [''i32'', ''row'', ''array''] \<subseteq>
     {''bool'', ''string'', ''i16'', ''i32'', ''f32'', ''row'', ''foreignrow'', ''enumrow'', ''array''}"
    by simp
  then show ?thesis using ok by blast
qed

section \<open>Document order and shared names\<close>

text \<open>
  The resolution of a field reads the symbol maps through \<^verbatim>\<open>has\<close> and \<^verbatim>\<open>get\<close> only, so
  it does not depend on the order of their entries; and the maps built from two documents
  in either order hold the same entries.
\<close>

lemma parseFieldNode_maps:
  assumes "map_of (typeDefsMap c1) = map_of (typeDefsMap c2)"
    and "map_of (enumDefsMap c1) = map_of (enumDefsMap c2)"
  shows "parseFieldNode c1 tableName fieldNode = parseFieldNode c2 tableName fieldNode"
proof -
  have c: "classifyFieldType c1 = classifyFieldType c2"
    by (intro ext) (simp add: classifyFieldType_def Map_has_def assms)
  have r: "resolveReferencedColumn c1 = resolveReferencedColumn c2"
    unfolding resolveReferencedColumn_def Map_get_def assms ..
  show ?thesis unfolding parseFieldNode_def c r ..
qed

lemma parseFields_maps:
  assumes "map_of (typeDefsMap c1) = map_of (typeDefsMap c2)"
    and "map_of (enumDefsMap c1) = map_of (enumDefsMap c2)"
  shows "parseFields c1 tableName fieldNodes columns = parseFields c2 tableName fieldNodes columns"
  by (induction fieldNodes arbitrary: columns)
     (simp_all add: parseFieldNode_maps [OF assms] split: sum.splits)

lemma parseTableNode_maps:
  assumes "map_of (typeDefsMap c1) = map_of (typeDefsMap c2)"
    and "map_of (enumDefsMap c1) = map_of (enumDefsMap c2)"
  shows "parseTableNode c1 typeNode = parseTableNode c2 typeNode"
  by (simp add: parseTableNode_def parseFields_maps [OF assms] split: sum.splits)

lemma list_all2_ex:
  "(\<exists>ys. list_all2 P xs ys) \<longleftrightarrow> (\<forall>x \<in> set xs. \<exists>y. P x y)"
proof (induction xs)
  case Nil
  then show ?case by simp
next
  case (Cons x xs)
  show ?case
  proof
    assume "\<exists>ys. list_all2 P (x # xs) ys"
    then show "\<forall>x \<in> set (x # xs). \<exists>y. P x y"
      using Cons.IH by (auto simp: list_all2_Cons1)
  next
    assume a: "\<forall>x \<in> set (x # xs). \<exists>y. P x y"
    then obtain y where y: "P x y" by auto
    from a Cons.IH obtain ys where "list_all2 P xs ys" by auto
    with y have "list_all2 P (x # xs) (y # ys)" by simp
    then show "\<exists>ys. list_all2 P (x # xs) ys" by blast
  qed
qed

lemma readSchemaSources_Inr:
  "readSchemaSources sources = Inr out \<longleftrightarrow>
   (\<exists>ctx. collectSources sources \<lparr>typeDefsMap = [], enumDefsMap = []\<rparr> = Inr ctx \<and>
      parseTables ctx (Map_values (typeDefsMap ctx)) = Inr (tables out) \<and>
      parseEnums (Map_values (enumDefsMap ctx)) = Inr (enumerations out))"
  by (cases out) (auto simp: readSchemaSources_def split: sum.splits)

lemma collectSources_Inr:
  "collectSources sources \<lparr>typeDefsMap = [], enumDefsMap = []\<rparr> = Inr ctx \<longleftrightarrow>
     OtherDefinition \<notin> set (concat sources) \<and>
     distinct (map (\<lambda>ob. name_value (obj_name ob))
                [ob. ObjectTypeDefinition ob \<leftarrow> concat sources]) \<and>
     distinct (map (\<lambda>en. name_value (en_name en))
                [en. EnumTypeDefinition en \<leftarrow> concat sources]) \<and>
     ctx = \<lparr>typeDefsMap = map (\<lambda>ob. (name_value (obj_name ob), ob))
                           [ob. ObjectTypeDefinition ob \<leftarrow> concat sources],
            enumDefsMap = map (\<lambda>en. (name_value (en_name en), en))
                           [en. EnumTypeDefinition en \<leftarrow> concat sources]\<rparr>"
  unfolding collectSources_concat collectDefinitions_Inr by (auto simp: Map_has_def)

lemma objects_member:
  "ob \<in> set [ob. ObjectTypeDefinition ob \<leftarrow> defs] \<longleftrightarrow> ObjectTypeDefinition ob \<in> set defs"
  by (induction defs) (auto split: definition_node.splits)

lemma enums_member:
  "en \<in> set [en. EnumTypeDefinition en \<leftarrow> defs] \<longleftrightarrow> EnumTypeDefinition en \<in> set defs"
  by (induction defs) (auto split: definition_node.splits)

lemma readSchemaSources_succeeds:
  "(\<exists>out. readSchemaSources sources = Inr out) \<longleftrightarrow>
   (\<exists>ctx. collectSources sources \<lparr>typeDefsMap = [], enumDefsMap = []\<rparr> = Inr ctx \<and>
      (\<forall>ob. ObjectTypeDefinition ob \<in> set (concat sources) \<longrightarrow>
         (\<exists>table. parseTableNode ctx ob = Inr table)) \<and>
      (\<forall>en. EnumTypeDefinition en \<in> set (concat sources) \<longrightarrow>
         (\<exists>enumeration. parseEnumNode en = Inr enumeration)))"
proof -
  have "(\<exists>out. readSchemaSources sources = Inr out) \<longleftrightarrow>
    (\<exists>ctx. collectSources sources \<lparr>typeDefsMap = [], enumDefsMap = []\<rparr> = Inr ctx \<and>
      (\<exists>tbls. parseTables ctx (Map_values (typeDefsMap ctx)) = Inr tbls) \<and>
      (\<exists>enums. parseEnums (Map_values (enumDefsMap ctx)) = Inr enums))"
    unfolding readSchemaSources_Inr
    by (metis SchemaFile.select_convs(1) SchemaFile.select_convs(2))
  also have "\<dots> \<longleftrightarrow>
    (\<exists>ctx. collectSources sources \<lparr>typeDefsMap = [], enumDefsMap = []\<rparr> = Inr ctx \<and>
      (\<forall>ob \<in> set (Map_values (typeDefsMap ctx)). \<exists>table. parseTableNode ctx ob = Inr table) \<and>
      (\<forall>en \<in> set (Map_values (enumDefsMap ctx)).
         \<exists>enumeration. parseEnumNode en = Inr enumeration))"
    unfolding parseTables_Inr parseEnums_Inr list_all2_ex ..
  also have "\<dots> \<longleftrightarrow>
    (\<exists>ctx. collectSources sources \<lparr>typeDefsMap = [], enumDefsMap = []\<rparr> = Inr ctx \<and>
      (\<forall>ob. ObjectTypeDefinition ob \<in> set (concat sources) \<longrightarrow>
         (\<exists>table. parseTableNode ctx ob = Inr table)) \<and>
      (\<forall>en. EnumTypeDefinition en \<in> set (concat sources) \<longrightarrow>
         (\<exists>enumeration. parseEnumNode en = Inr enumeration)))"
  proof -
    have "set (Map_values (typeDefsMap ctx)) = {ob. ObjectTypeDefinition ob \<in> set (concat sources)} \<and>
          set (Map_values (enumDefsMap ctx)) = {en. EnumTypeDefinition en \<in> set (concat sources)}"
      if "collectSources sources \<lparr>typeDefsMap = [], enumDefsMap = []\<rparr> = Inr ctx" for ctx
    proof -
      from that have c: "ctx = \<lparr>typeDefsMap = map (\<lambda>ob. (name_value (obj_name ob), ob))
                           [ob. ObjectTypeDefinition ob \<leftarrow> concat sources],
            enumDefsMap = map (\<lambda>en. (name_value (en_name en), en))
                           [en. EnumTypeDefinition en \<leftarrow> concat sources]\<rparr>"
        by (simp add: collectSources_Inr)
      have "set (Map_values (typeDefsMap ctx)) = set [ob. ObjectTypeDefinition ob \<leftarrow> concat sources]"
        unfolding c Map_values_def by (simp add: comp_def)
      moreover have "set (Map_values (enumDefsMap ctx)) =
          set [en. EnumTypeDefinition en \<leftarrow> concat sources]"
        unfolding c Map_values_def by (simp add: comp_def)
      ultimately show ?thesis
        using objects_member [of _ "concat sources"] enums_member [of _ "concat sources"]
        by blast
    qed
    then show ?thesis by (metis (no_types, lifting) mem_Collect_eq)
  qed
  finally show ?thesis .
qed


lemma collectSources_has_table:
  assumes "collectSources sources \<lparr>typeDefsMap = [], enumDefsMap = []\<rparr> = Inr ctx"
  shows "Map_has (typeDefsMap ctx) name \<longleftrightarrow>
         (\<exists>ob. ObjectTypeDefinition ob \<in> set (concat sources) \<and> name_value (obj_name ob) = name)"
proof -
  from assms have "typeDefsMap ctx = map (\<lambda>ob. (name_value (obj_name ob), ob))
                           [ob. ObjectTypeDefinition ob \<leftarrow> concat sources]"
    by (simp add: collectSources_Inr)
  then have "Map_has (typeDefsMap ctx) name \<longleftrightarrow>
      name \<in> (\<lambda>ob. name_value (obj_name ob)) ` set [ob. ObjectTypeDefinition ob \<leftarrow> concat sources]"
    by (simp add: Map_has_keys image_image)
  then show ?thesis using objects_member [of _ "concat sources"] by auto
qed

lemma collectSources_has_enum:
  assumes "collectSources sources \<lparr>typeDefsMap = [], enumDefsMap = []\<rparr> = Inr ctx"
  shows "Map_has (enumDefsMap ctx) name \<longleftrightarrow>
         (\<exists>en. EnumTypeDefinition en \<in> set (concat sources) \<and> name_value (en_name en) = name)"
proof -
  from assms have "enumDefsMap ctx = map (\<lambda>en. (name_value (en_name en), en))
                           [en. EnumTypeDefinition en \<leftarrow> concat sources]"
    by (simp add: collectSources_Inr)
  then have "Map_has (enumDefsMap ctx) name \<longleftrightarrow>
      name \<in> (\<lambda>en. name_value (en_name en)) ` set [en. EnumTypeDefinition en \<leftarrow> concat sources]"
    by (simp add: Map_has_keys image_image)
  then show ?thesis using enums_member [of _ "concat sources"] by auto
qed

lemma collectSources_swap:
  assumes "collectSources [d1, d2] \<lparr>typeDefsMap = [], enumDefsMap = []\<rparr> = Inr c12"
  shows "\<exists>c21. collectSources [d2, d1] \<lparr>typeDefsMap = [], enumDefsMap = []\<rparr> = Inr c21 \<and>
           map_of (typeDefsMap c12) = map_of (typeDefsMap c21) \<and>
           map_of (enumDefsMap c12) = map_of (enumDefsMap c21)"
proof -
  let ?obs = "\<lambda>defs. [ob. ObjectTypeDefinition ob \<leftarrow> defs]"
  let ?ens = "\<lambda>defs. [en. EnumTypeDefinition en \<leftarrow> defs]"
  let ?tn = "\<lambda>ob. name_value (obj_name ob)"
  let ?en = "\<lambda>en. name_value (en_name en)"
  let ?c21 = "\<lparr>typeDefsMap = map (\<lambda>ob. (?tn ob, ob)) (?obs (d2 @ d1)),
               enumDefsMap = map (\<lambda>en. (?en en, en)) (?ens (d2 @ d1))\<rparr>"
  from assms have
    o: "OtherDefinition \<notin> set (d1 @ d2)" and
    dt: "distinct (map ?tn (?obs (d1 @ d2)))" and
    de: "distinct (map ?en (?ens (d1 @ d2)))" and
    c: "c12 = \<lparr>typeDefsMap = map (\<lambda>ob. (?tn ob, ob)) (?obs (d1 @ d2)),
               enumDefsMap = map (\<lambda>en. (?en en, en)) (?ens (d1 @ d2))\<rparr>"
    unfolding collectSources_Inr by simp_all
  have dt': "distinct (map ?tn (?obs (d2 @ d1)))" using dt by auto
  have de': "distinct (map ?en (?ens (d2 @ d1)))" using de by auto
  have ok: "collectSources [d2, d1] \<lparr>typeDefsMap = [], enumDefsMap = []\<rparr> = Inr ?c21"
    unfolding collectSources_Inr using o dt' de' by simp
  have t: "map_of (map (\<lambda>ob. (?tn ob, ob)) (?obs (d1 @ d2))) =
           map_of (map (\<lambda>ob. (?tn ob, ob)) (?obs (d2 @ d1)))"
  proof (subst map_of_inject_set)
    show "distinct (map fst (map (\<lambda>ob. (?tn ob, ob)) (?obs (d1 @ d2))))"
      using dt by (simp add: comp_def)
    show "distinct (map fst (map (\<lambda>ob. (?tn ob, ob)) (?obs (d2 @ d1))))"
      using dt' by (simp add: comp_def)
    show "set (map (\<lambda>ob. (?tn ob, ob)) (?obs (d1 @ d2))) =
          set (map (\<lambda>ob. (?tn ob, ob)) (?obs (d2 @ d1)))"
      by auto
  qed
  have e: "map_of (map (\<lambda>en. (?en en, en)) (?ens (d1 @ d2))) =
           map_of (map (\<lambda>en. (?en en, en)) (?ens (d2 @ d1)))"
  proof (subst map_of_inject_set)
    show "distinct (map fst (map (\<lambda>en. (?en en, en)) (?ens (d1 @ d2))))"
      using de by (simp add: comp_def)
    show "distinct (map fst (map (\<lambda>en. (?en en, en)) (?ens (d2 @ d1))))"
      using de' by (simp add: comp_def)
    show "set (map (\<lambda>en. (?en en, en)) (?ens (d1 @ d2))) =
          set (map (\<lambda>en. (?en en, en)) (?ens (d2 @ d1)))"
      by auto
  qed
  show ?thesis using ok t e unfolding c by (intro exI [of _ ?c21]) simp
qed

lemma readSchemaSources_swap:
  assumes "\<exists>out. readSchemaSources [d1, d2] = Inr out"
  shows "\<exists>out. readSchemaSources [d2, d1] = Inr out"
proof -
  from assms obtain c12 where
    c12: "collectSources [d1, d2] \<lparr>typeDefsMap = [], enumDefsMap = []\<rparr> = Inr c12" and
    t12: "\<forall>ob. ObjectTypeDefinition ob \<in> set (concat [d1, d2]) \<longrightarrow>
           (\<exists>table. parseTableNode c12 ob = Inr table)" and
    e12: "\<forall>en. EnumTypeDefinition en \<in> set (concat [d1, d2]) \<longrightarrow>
           (\<exists>enumeration. parseEnumNode en = Inr enumeration)"
    unfolding readSchemaSources_succeeds by blast
  from collectSources_swap [OF c12] obtain c21 where
    c21: "collectSources [d2, d1] \<lparr>typeDefsMap = [], enumDefsMap = []\<rparr> = Inr c21" and
    m: "map_of (typeDefsMap c12) = map_of (typeDefsMap c21)"
       "map_of (enumDefsMap c12) = map_of (enumDefsMap c21)"
    by blast
  have "parseTableNode c21 ob = parseTableNode c12 ob" for ob
    using parseTableNode_maps [OF m] by simp
  then have "\<forall>ob. ObjectTypeDefinition ob \<in> set (concat [d2, d1]) \<longrightarrow>
           (\<exists>table. parseTableNode c21 ob = Inr table)"
    using t12 by auto
  moreover have "\<forall>en. EnumTypeDefinition en \<in> set (concat [d2, d1]) \<longrightarrow>
           (\<exists>enumeration. parseEnumNode en = Inr enumeration)"
    using e12 by auto
  ultimately show ?thesis
    unfolding readSchemaSources_succeeds using c21 by blast
qed

lemma list_all2_left: "list_all2 P xs ys \<Longrightarrow> x \<in> set xs \<Longrightarrow> \<exists>y \<in> set ys. P x y"
  by (induction rule: list_all2_induct) auto

lemma readSchemaSources_table:
  assumes "readSchemaSources sources = Inr out"
    and "ObjectTypeDefinition a \<in> set (concat sources)"
  shows "\<exists>ctx table. collectSources sources \<lparr>typeDefsMap = [], enumDefsMap = []\<rparr> = Inr ctx \<and>
           table \<in> set (tables out) \<and> parseTableNode ctx a = Inr table"
proof -
  from assms(1) obtain ctx where
    c: "collectSources sources \<lparr>typeDefsMap = [], enumDefsMap = []\<rparr> = Inr ctx" and
    t: "parseTables ctx (Map_values (typeDefsMap ctx)) = Inr (tables out)"
    unfolding readSchemaSources_Inr by blast
  from c have "Map_values (typeDefsMap ctx) = [ob. ObjectTypeDefinition ob \<leftarrow> concat sources]"
    by (simp add: collectSources_Inr Map_values_def comp_def)
  with assms(2) have m: "a \<in> set (Map_values (typeDefsMap ctx))"
    by (simp only: objects_member)
  from t have
    l: "list_all2 (\<lambda>typeNode table. parseTableNode ctx typeNode = Inr table)
       (Map_values (typeDefsMap ctx)) (tables out)"
    by (simp add: parseTables_Inr)
  from list_all2_left [OF l m] obtain table where
    "table \<in> set (tables out)" "parseTableNode ctx a = Inr table"
    by blast
  with c show ?thesis by blast
qed

lemma classifyFieldType_table:
  assumes "Map_has (typeDefsMap ctx) (ft_name fieldType)"
    and "ft_name fieldType \<noteq> tableName"
    and "ft_name fieldType \<noteq> ''rid''"
    and "\<not> (ft_name fieldType = ''_'' \<and> ft_array fieldType)"
    and "ft_name fieldType \<notin> set ScalarTypes"
  shows "classifyFieldType ctx tableName fieldNode fieldType =
           Inr (Some \<lparr>ref_table = ft_name fieldType, ref_column = None\<rparr>,
                fieldType\<lparr>ft_name := ''foreignrow''\<rparr>)"
  using assms by (auto simp: classifyFieldType_def)

lemma parseFieldNode_table:
  assumes "parseFieldNode ctx tableName fieldNode = Inr column"
    and "unwrapType fieldNode = Inr fieldType"
    and "findDirective (fd_directives fieldNode) (NAME DIRECTIVE_REF) = None"
    and "Map_has (typeDefsMap ctx) (ft_name fieldType)"
    and "ft_name fieldType \<noteq> tableName"
    and "ft_name fieldType \<noteq> ''rid''"
    and "\<not> (ft_name fieldType = ''_'' \<and> ft_array fieldType)"
    and "ft_name fieldType \<notin> set ScalarTypes"
  shows "col_type column = ''foreignrow'' \<and>
         col_references column = Some \<lparr>ref_table = ft_name fieldType, ref_column = None\<rparr>"
  using parseFieldNode_Inr [OF assms(1)] assms(2) referencesField_absent [OF assms(3)]
    classifyFieldType_table [OF assms(4-8), of fieldNode]
  by (auto simp: truthy_def)


lemma readSchemaSources_foreign_column:
  assumes "readSchemaSources sources = Inr out"
    and "ObjectTypeDefinition a \<in> set (concat sources)"
    and "ObjectTypeDefinition b \<in> set (concat sources)"
    and "name_value (obj_name b) \<noteq> name_value (obj_name a)"
    and "i < length (obj_fields a)"
    and "unwrapType (obj_fields a ! i) = Inr fieldType"
    and "ft_name fieldType = name_value (obj_name b)"
    and "name_value (obj_name b) \<notin> set ScalarTypes"
    and "name_value (obj_name b) \<noteq> ''rid''"
    and "name_value (obj_name b) \<noteq> ''_''"
    and "findDirective (fd_directives (obj_fields a ! i)) (NAME DIRECTIVE_REF) = None"
  shows "\<exists>table \<in> set (tables out).
           tbl_name table = name_value (obj_name a) \<and>
           length (tbl_columns table) = length (obj_fields a) \<and>
           col_type (tbl_columns table ! i) = ''foreignrow'' \<and>
           col_references (tbl_columns table ! i) =
             Some \<lparr>ref_table = name_value (obj_name b), ref_column = None\<rparr>"
proof -
  from readSchemaSources_table [OF assms(1,2)] obtain ctx table where
    c: "collectSources sources \<lparr>typeDefsMap = [], enumDefsMap = []\<rparr> = Inr ctx" and
    t: "table \<in> set (tables out)" and p: "parseTableNode ctx a = Inr table"
    by blast
  from parseTableNode_Inr [OF p] have
    n: "tbl_name table = name_value (obj_name a)" and
    l: "list_all2 (\<lambda>fieldNode column.
             parseFieldNode ctx (name_value (obj_name a)) fieldNode = Inr column)
           (obj_fields a) (tbl_columns table)"
    by simp_all
  from l have len: "length (tbl_columns table) = length (obj_fields a)"
    by (simp add: list_all2_lengthD)
  from l assms(5) have
    f: "parseFieldNode ctx (name_value (obj_name a)) (obj_fields a ! i) = Inr (tbl_columns table ! i)"
    by (simp add: list_all2_conv_all_nth)
  have h: "Map_has (typeDefsMap ctx) (ft_name fieldType)"
    unfolding collectSources_has_table [OF c] using assms(3,7) by auto
  from parseFieldNode_table [OF f assms(6) assms(11) h] assms(4,7-10)
  have "col_type (tbl_columns table ! i) = ''foreignrow'' \<and>
        col_references (tbl_columns table ! i) =
          Some \<lparr>ref_table = name_value (obj_name b), ref_column = None\<rparr>"
    by simp
  with t n len show ?thesis by blast
qed

lemma readSchemaSources_distinct_names:
  assumes "readSchemaSources sources = Inr out"
  shows "distinct (map (\<lambda>ob. name_value (obj_name ob))
                     [ob. ObjectTypeDefinition ob \<leftarrow> concat sources])"
proof -
  from assms obtain ctx where
    "collectSources sources \<lparr>typeDefsMap = [], enumDefsMap = []\<rparr> = Inr ctx"
    unfolding readSchemaSources_Inr by blast
  then show ?thesis using collectSources_Inr [of sources ctx] by blast
qed

lemma readSchemaSources_distinct_tables:
  assumes "readSchemaSources [d1, d2] = Inr out \<or> readSchemaSources [d2, d1] = Inr out"
    and "ObjectTypeDefinition a \<in> set d1"
    and "ObjectTypeDefinition b \<in> set d2"
  shows "name_value (obj_name b) \<noteq> name_value (obj_name a)"
proof -
  let ?obs = "\<lambda>defs. [ob. ObjectTypeDefinition ob \<leftarrow> defs]"
  let ?tn = "\<lambda>ob. name_value (obj_name ob)"
  have disjoint: "?tn ` set (?obs d1) \<inter> ?tn ` set (?obs d2) = {}"
    using assms(1)
  proof
    assume "readSchemaSources [d1, d2] = Inr out"
    from readSchemaSources_distinct_names [OF this]
    have "distinct (map ?tn (?obs d1) @ map ?tn (?obs d2))" by simp
    then show ?thesis by (simp only: distinct_append set_map)
  next
    assume "readSchemaSources [d2, d1] = Inr out"
    from readSchemaSources_distinct_names [OF this]
    have "distinct (map ?tn (?obs d2) @ map ?tn (?obs d1))" by simp
    then have "?tn ` set (?obs d2) \<inter> ?tn ` set (?obs d1) = {}"
      by (simp only: distinct_append set_map)
    then show ?thesis by (simp only: Int_commute)
  qed
  have a: "a \<in> set (?obs d1)" using assms(2) by (simp only: objects_member)
  have b: "b \<in> set (?obs d2)" using assms(3) by (simp only: objects_member)
  show ?thesis
  proof
    assume "?tn b = ?tn a"
    then have "?tn a \<in> ?tn ` set (?obs d1) \<inter> ?tn ` set (?obs d2)"
      using a b by (metis IntI imageI)
    with disjoint show False by simp
  qed
qed

text \<open>
  What is proved of \<^verbatim>\<open>parseFieldNode\<close> holds of the columns that \<^verbatim>\<open>readSchemaSources\<close>
  returns: in a successful run every table definition of the sources yields a table whose
  columns are the results of \<^verbatim>\<open>parseFieldNode\<close> on its fields, under the maps built from
  all sources; and a field on which \<^verbatim>\<open>parseFieldNode\<close> fails under these maps makes the
  run fail.
\<close>

lemma readSchemaSources_resolves_fields:
  assumes "readSchemaSources sources = Inr out"
    and "ObjectTypeDefinition a \<in> set (concat sources)"
  shows "\<exists>ctx table.
           collectSources sources \<lparr>typeDefsMap = [], enumDefsMap = []\<rparr> = Inr ctx \<and>
           table \<in> set (tables out) \<and> tbl_name table = name_value (obj_name a) \<and>
           list_all2 (\<lambda>fieldNode column.
               parseFieldNode ctx (name_value (obj_name a)) fieldNode = Inr column)
             (obj_fields a) (tbl_columns table)"
proof -
  from readSchemaSources_table [OF assms] obtain ctx table where
    "collectSources sources \<lparr>typeDefsMap = [], enumDefsMap = []\<rparr> = Inr ctx"
    "table \<in> set (tables out)" "parseTableNode ctx a = Inr table"
    by blast
  with parseTableNode_Inr [of ctx a table] show ?thesis by blast
qed

lemma readSchemaSources_field_failure:
  assumes "collectSources sources \<lparr>typeDefsMap = [], enumDefsMap = []\<rparr> = Inr ctx"
    and "ObjectTypeDefinition a \<in> set (concat sources)"
    and "fieldNode \<in> set (obj_fields a)"
    and "parseFieldNode ctx (name_value (obj_name a)) fieldNode = Inl e"
  shows "\<exists>e'. readSchemaSources sources = Inl e'"
proof (cases "readSchemaSources sources")
  case (Inl e')
  then show ?thesis by blast
next
  case (Inr out)
  from readSchemaSources_resolves_fields [OF Inr assms(2)] obtain ctx' table where
    c: "collectSources sources \<lparr>typeDefsMap = [], enumDefsMap = []\<rparr> = Inr ctx'" and
    t: "table \<in> set (tables out)" and
    l: "list_all2 (\<lambda>fieldNode column.
               parseFieldNode ctx' (name_value (obj_name a)) fieldNode = Inr column)
             (obj_fields a) (tbl_columns table)"
    by blast
  from c assms(1) have "ctx' = ctx" by simp
  with list_all2_left [OF l assms(3)] assms(4) show ?thesis by auto
qed

text \<open>
  Claim C6, as amended. Take two documents, the first defining a table \<open>A\<close> with a field
  that carries no \<open>ref\<close> directive and whose unwrapped type name is \<open>B\<close>, the second
  defining a table \<open>B\<close>, where \<open>B\<close> is not a scalar name, not \<open>rid\<close> and not \<open>_\<close>. Reading the
  two documents succeeds in one order exactly when it succeeds in the other. Whenever it
  succeeds, in either order, table \<open>A\<close> is returned with one column for each of its fields,
  and the column of that field has type \<open>foreignrow\<close> and references table \<open>B\<close>, with no
  column.
\<close>

theorem C6_document_order:
  assumes "ObjectTypeDefinition a \<in> set d1"
    and "ObjectTypeDefinition b \<in> set d2"
    and "i < length (obj_fields a)"
    and "unwrapType (obj_fields a ! i) = Inr fieldType"
    and "ft_name fieldType = name_value (obj_name b)"
    and "name_value (obj_name b) \<notin> set ScalarTypes"
    and "name_value (obj_name b) \<noteq> ''rid''"
    and "name_value (obj_name b) \<noteq> ''_''"
    and "findDirective (fd_directives (obj_fields a ! i)) (NAME DIRECTIVE_REF) = None"
  shows
    "((\<exists>out. readSchemaSources [d1, d2] = Inr out) \<longleftrightarrow>
      (\<exists>out. readSchemaSources [d2, d1] = Inr out)) \<and>
     (\<forall>out. readSchemaSources [d1, d2] = Inr out \<or> readSchemaSources [d2, d1] = Inr out \<longrightarrow>
        (\<exists>table \<in> set (tables out).
           tbl_name table = name_value (obj_name a) \<and>
           length (tbl_columns table) = length (obj_fields a) \<and>
           col_type (tbl_columns table ! i) = ''foreignrow'' \<and>
           col_references (tbl_columns table ! i) =
             Some \<lparr>ref_table = name_value (obj_name b), ref_column = None\<rparr>))"
proof (intro conjI allI impI)
  show "(\<exists>out. readSchemaSources [d1, d2] = Inr out) \<longleftrightarrow>
        (\<exists>out. readSchemaSources [d2, d1] = Inr out)"
    using readSchemaSources_swap [of d1 d2] readSchemaSources_swap [of d2 d1] by blast
next
  fix out
  assume ok: "readSchemaSources [d1, d2] = Inr out \<or> readSchemaSources [d2, d1] = Inr out"
  note ne = readSchemaSources_distinct_tables [OF ok assms(1,2)]
  have a12: "ObjectTypeDefinition a \<in> set (concat [d1, d2])"
    and b12: "ObjectTypeDefinition b \<in> set (concat [d1, d2])"
    and a21: "ObjectTypeDefinition a \<in> set (concat [d2, d1])"
    and b21: "ObjectTypeDefinition b \<in> set (concat [d2, d1])"
    using assms(1,2) by simp_all
  from ok show "\<exists>table \<in> set (tables out).
           tbl_name table = name_value (obj_name a) \<and>
           length (tbl_columns table) = length (obj_fields a) \<and>
           col_type (tbl_columns table ! i) = ''foreignrow'' \<and>
           col_references (tbl_columns table ! i) =
             Some \<lparr>ref_table = name_value (obj_name b), ref_column = None\<rparr>"
  proof
    assume "readSchemaSources [d1, d2] = Inr out"
    from readSchemaSources_foreign_column [OF this a12 b12 ne assms(3-9)] show ?thesis .
  next
    assume "readSchemaSources [d2, d1] = Inr out"
    from readSchemaSources_foreign_column [OF this a21 b21 ne assms(3-9)] show ?thesis .
  qed
qed


theorem C6_document_order_witness:
  "readSchemaSources
     [[ObjectTypeDefinition
         (ObjectTypeDefinitionNode (NameNode 5 ''A'') []
            [FieldDefinitionNode (NameNode 9 ''f'') None (NamedType (NameNode 12 ''B'')) []])],
      [ObjectTypeDefinition (ObjectTypeDefinitionNode (NameNode 5 ''B'') [] [])]] =
     Inr \<lparr>tables =
            [\<lparr>tbl_name = ''A'',
              tbl_columns =
                [\<lparr>col_name = Some ''f'', col_description = None, col_array = False,
                  col_type = ''foreignrow'', col_unique = False, col_localized = False,
                  col_references = Some \<lparr>ref_table = ''B'', ref_column = None\<rparr>,
                  col_until = None, col_file = None, col_files = None\<rparr>],
              tbl_tags = []\<rparr>,
             \<lparr>tbl_name = ''B'', tbl_columns = [], tbl_tags = []\<rparr>],
          enumerations = []\<rparr> \<and>
   (\<exists>out. readSchemaSources
      [[ObjectTypeDefinition (ObjectTypeDefinitionNode (NameNode 5 ''B'') [] [])],
       [ObjectTypeDefinition
         (ObjectTypeDefinitionNode (NameNode 5 ''A'') []
            [FieldDefinitionNode (NameNode 9 ''f'') None (NamedType (NameNode 12 ''B'')) []])]] =
      Inr out \<and>
      (\<exists>table \<in> set (tables out).
         tbl_name table = ''A'' \<and> length (tbl_columns table) = 1 \<and>
         col_type (tbl_columns table ! 0) = ''foreignrow'' \<and>
         col_references (tbl_columns table ! 0) = Some \<lparr>ref_table = ''B'', ref_column = None\<rparr>))"
proof -
  let ?f = "FieldDefinitionNode (NameNode 9 ''f'') None (NamedType (NameNode 12 ''B'')) []"
  let ?A = "ObjectTypeDefinitionNode (NameNode 5 ''A'') [] [?f]"
  let ?B = "ObjectTypeDefinitionNode (NameNode 5 ''B'') [] []"
  let ?out = "\<lparr>tables =
            [\<lparr>tbl_name = ''A'',
              tbl_columns =
                [\<lparr>col_name = Some ''f'', col_description = None, col_array = False,
                  col_type = ''foreignrow'', col_unique = False, col_localized = False,
                  col_references = Some \<lparr>ref_table = ''B'', ref_column = None\<rparr>,
                  col_until = None, col_file = None, col_files = None\<rparr>],
              tbl_tags = []\<rparr>,
             \<lparr>tbl_name = ''B'', tbl_columns = [], tbl_tags = []\<rparr>],
          enumerations = []\<rparr>"
  have hyps:
    "ObjectTypeDefinition ?A \<in> set [ObjectTypeDefinition ?A]"
    "ObjectTypeDefinition ?B \<in> set [ObjectTypeDefinition ?B]"
    "0 < length (obj_fields ?A)"
    "unwrapType (obj_fields ?A ! 0) = Inr \<lparr>ft_array = False, ft_name = ''B''\<rparr>"
    "ft_name \<lparr>ft_array = False, ft_name = ''B''\<rparr> = name_value (obj_name ?B)"
    "name_value (obj_name ?B) \<notin> set ScalarTypes"
    "name_value (obj_name ?B) \<noteq> ''rid''"
    "name_value (obj_name ?B) \<noteq> ''_''"
    "findDirective (fd_directives (obj_fields ?A ! 0)) (NAME DIRECTIVE_REF) = None"
    by (simp_all add: unwrapType_def ScalarTypes_def findDirective_def)
  note inst = C6_document_order [OF hyps]
  have ok: "readSchemaSources [[ObjectTypeDefinition ?A], [ObjectTypeDefinition ?B]] = Inr ?out"
    by (simp add: reader_defs)
  from inst [THEN conjunct1] ok obtain out where
    swapped: "readSchemaSources [[ObjectTypeDefinition ?B], [ObjectTypeDefinition ?A]] = Inr out"
    by blast
  from inst [THEN conjunct2, rule_format, of out] swapped have
    "\<exists>table \<in> set (tables out).
         tbl_name table = ''A'' \<and> length (tbl_columns table) = 1 \<and>
         col_type (tbl_columns table ! 0) = ''foreignrow'' \<and>
         col_references (tbl_columns table ! 0) = Some \<lparr>ref_table = ''B'', ref_column = None\<rparr>"
    by simp
  with ok swapped show ?thesis by blast
qed

text \<open>
  Claim C6 as stated fails when \<open>B\<close> is a scalar name: in \<^verbatim>\<open>type A { f: i32 }\<close> and
  \<^verbatim>\<open>type i32\<close> the field is a scalar column with no reference. With a \<open>ref\<close> directive,
  in \<^verbatim>\<open>type A { f: B @ref(column: "x") }\<close> and \<^verbatim>\<open>type B { x: i32 @unique }\<close>, the column
  takes the type of the referenced column. And the two documents need not be read with
  success: \<^verbatim>\<open>type A { f: B  g: C }\<close> and \<^verbatim>\<open>type B\<close> fail on \<open>C\<close>.
\<close>

theorem C6_document_order_counterexample:
  "readSchemaSources
     [[ObjectTypeDefinition
         (ObjectTypeDefinitionNode (NameNode 5 ''A'') []
            [FieldDefinitionNode (NameNode 9 ''f'') None (NamedType (NameNode 12 ''i32'')) []])],
      [ObjectTypeDefinition (ObjectTypeDefinitionNode (NameNode 5 ''i32'') [] [])]] =
     Inr \<lparr>tables =
            [\<lparr>tbl_name = ''A'',
              tbl_columns =
                [\<lparr>col_name = Some ''f'', col_description = None, col_array = False,
                  col_type = ''i32'', col_unique = False, col_localized = False,
                  col_references = None,
                  col_until = None, col_file = None, col_files = None\<rparr>],
              tbl_tags = []\<rparr>,
             \<lparr>tbl_name = ''i32'', tbl_columns = [], tbl_tags = []\<rparr>],
          enumerations = []\<rparr> \<and>
   readSchemaSources
     [[ObjectTypeDefinition
         (ObjectTypeDefinitionNode (NameNode 5 ''A'') []
            [FieldDefinitionNode (NameNode 9 ''f'') None (NamedType (NameNode 12 ''B''))
               [DirectiveNode (NameNode 15 ''ref'')
                  [ArgumentNode (NameNode 19 ''column'') (StringValue ''x'')]]])],
      [ObjectTypeDefinition
         (ObjectTypeDefinitionNode (NameNode 5 ''B'') []
            [FieldDefinitionNode (NameNode 9 ''x'') None (NamedType (NameNode 12 ''i32''))
               [DirectiveNode (NameNode 17 ''unique'') []]])]] =
     Inr \<lparr>tables =
            [\<lparr>tbl_name = ''A'',
              tbl_columns =
                [\<lparr>col_name = Some ''f'', col_description = None, col_array = False,
                  col_type = ''i32'', col_unique = False, col_localized = False,
                  col_references = Some \<lparr>ref_table = ''B'', ref_column = Some ''x''\<rparr>,
                  col_until = None, col_file = None, col_files = None\<rparr>],
              tbl_tags = []\<rparr>,
             \<lparr>tbl_name = ''B'',
              tbl_columns =
                [\<lparr>col_name = Some ''x'', col_description = None, col_array = False,
                  col_type = ''i32'', col_unique = True, col_localized = False,
                  col_references = None,
                  col_until = None, col_file = None, col_files = None\<rparr>],
              tbl_tags = []\<rparr>],
          enumerations = []\<rparr> \<and>
   readSchemaSources
     [[ObjectTypeDefinition
         (ObjectTypeDefinitionNode (NameNode 5 ''A'') []
            [FieldDefinitionNode (NameNode 9 ''f'') None (NamedType (NameNode 12 ''B'')) [],
             FieldDefinitionNode (NameNode 16 ''g'') None (NamedType (NameNode 19 ''C'')) []])],
      [ObjectTypeDefinition (ObjectTypeDefinitionNode (NameNode 5 ''B'') [] [])]] =
     Inl (GraphQLError ''Can't find referenced table/enum \"C\".''
            [NType (NamedType (NameNode 19 ''C''))] None)"
  by (simp add: reader_defs)

section \<open>Referenced columns in a run\<close>












section \<open>A name shared by a table and an enumeration\<close>

text \<open>Building the maps fails with one of three errors only.\<close>

lemma collectDefinitions_messages:
  "collectDefinitions defs ctx = Inl e \<Longrightarrow>
   message e \<in> {''Enum with this name has already been defined.'',
                ''Table with this name has already been defined.'',
                ''Unsupported definition.''}"
  by (induction defs arbitrary: ctx) (auto split: definition_node.splits if_splits)

text \<open>
  Claim C10, as amended. When no definition of the sources is of another kind than table
  and enumeration, the names of the table definitions are pairwise different and the names
  of the enumeration definitions are pairwise different, \<^verbatim>\<open>readSchemaSources\<close> builds both
  maps from all the definitions and its result is that of resolving the tables and then
  the enumerations under these maps: a name shared by a table and an enumeration is no
  error. Otherwise the run fails with the error of a repeated enumeration name, of a
  repeated table name or of an unsupported definition. Let a table and an enumeration of
  the sources share a name that is not \<open>rid\<close>, not \<open>_\<close> and no scalar name, and let a field
  of another table of the sources carry no \<open>ref\<close> directive and have a type whose
  unwrapped name is the shared name: in every successful run the column of that field has
  the type \<open>foreignrow\<close> and references the table of the shared name, with no column.
\<close>

theorem C10_shared_name:
  "(OtherDefinition \<notin> set (concat sources) \<and>
    distinct (map (\<lambda>ob. name_value (obj_name ob))
               [ob. ObjectTypeDefinition ob \<leftarrow> concat sources]) \<and>
    distinct (map (\<lambda>en. name_value (en_name en))
               [en. EnumTypeDefinition en \<leftarrow> concat sources]) \<longrightarrow>
    readSchemaSources sources =
      (case parseTables
              \<lparr>typeDefsMap = map (\<lambda>ob. (name_value (obj_name ob), ob))
                               [ob. ObjectTypeDefinition ob \<leftarrow> concat sources],
               enumDefsMap = map (\<lambda>en. (name_value (en_name en), en))
                               [en. EnumTypeDefinition en \<leftarrow> concat sources]\<rparr>
              [ob. ObjectTypeDefinition ob \<leftarrow> concat sources] of
         Inl e \<Rightarrow> Inl e
       | Inr tbls \<Rightarrow>
           (case parseEnums [en. EnumTypeDefinition en \<leftarrow> concat sources] of
              Inl e \<Rightarrow> Inl e
            | Inr enums \<Rightarrow> Inr \<lparr>tables = tbls, enumerations = enums\<rparr>))) \<and>
   (\<not> (OtherDefinition \<notin> set (concat sources) \<and>
       distinct (map (\<lambda>ob. name_value (obj_name ob))
                  [ob. ObjectTypeDefinition ob \<leftarrow> concat sources]) \<and>
       distinct (map (\<lambda>en. name_value (en_name en))
                  [en. EnumTypeDefinition en \<leftarrow> concat sources])) \<longrightarrow>
    (\<exists>e. readSchemaSources sources = Inl e \<and>
         message e \<in> {''Enum with this name has already been defined.'',
                      ''Table with this name has already been defined.'',
                      ''Unsupported definition.''})) \<and>
   (\<forall>out.
      readSchemaSources sources = Inr out \<and>
      ObjectTypeDefinition shared \<in> set (concat sources) \<and>
      EnumTypeDefinition sharing \<in> set (concat sources) \<and>
      name_value (en_name sharing) = name_value (obj_name shared) \<and>
      ObjectTypeDefinition a \<in> set (concat sources) \<and>
      name_value (obj_name a) \<noteq> name_value (obj_name shared) \<and>
      i < length (obj_fields a) \<and>
      unwrapType (obj_fields a ! i) = Inr fieldType \<and>
      ft_name fieldType = name_value (obj_name shared) \<and>
      name_value (obj_name shared) \<notin> set ScalarTypes \<and>
      name_value (obj_name shared) \<noteq> ''rid'' \<and>
      name_value (obj_name shared) \<noteq> ''_'' \<and>
      findDirective (fd_directives (obj_fields a ! i)) (NAME DIRECTIVE_REF) = None \<longrightarrow>
      (\<exists>table \<in> set (tables out).
         tbl_name table = name_value (obj_name a) \<and>
         length (tbl_columns table) = length (obj_fields a) \<and>
         col_type (tbl_columns table ! i) = ''foreignrow'' \<and>
         col_references (tbl_columns table ! i) =
           Some \<lparr>ref_table = name_value (obj_name shared), ref_column = None\<rparr>))"
proof (intro conjI impI allI)
  let ?ctx = "\<lparr>typeDefsMap = map (\<lambda>ob. (name_value (obj_name ob), ob))
                               [ob. ObjectTypeDefinition ob \<leftarrow> concat sources],
               enumDefsMap = map (\<lambda>en. (name_value (en_name en), en))
                               [en. EnumTypeDefinition en \<leftarrow> concat sources]\<rparr>"
  {
    assume "OtherDefinition \<notin> set (concat sources) \<and>
      distinct (map (\<lambda>ob. name_value (obj_name ob))
               [ob. ObjectTypeDefinition ob \<leftarrow> concat sources]) \<and>
      distinct (map (\<lambda>en. name_value (en_name en))
               [en. EnumTypeDefinition en \<leftarrow> concat sources])"
    then have c: "collectSources sources \<lparr>typeDefsMap = [], enumDefsMap = []\<rparr> = Inr ?ctx"
      unfolding collectSources_Inr by simp
    have v: "Map_values (typeDefsMap ?ctx) = [ob. ObjectTypeDefinition ob \<leftarrow> concat sources]"
      "Map_values (enumDefsMap ?ctx) = [en. EnumTypeDefinition en \<leftarrow> concat sources]"
      by (simp_all add: Map_values_def comp_def)
    show "readSchemaSources sources =
      (case parseTables ?ctx [ob. ObjectTypeDefinition ob \<leftarrow> concat sources] of
         Inl e \<Rightarrow> Inl e
       | Inr tbls \<Rightarrow>
           (case parseEnums [en. EnumTypeDefinition en \<leftarrow> concat sources] of
              Inl e \<Rightarrow> Inl e
            | Inr enums \<Rightarrow> Inr \<lparr>tables = tbls, enumerations = enums\<rparr>))"
      unfolding readSchemaSources_def c by (simp only: v sum.case)
  }
  {
    assume n: "\<not> (OtherDefinition \<notin> set (concat sources) \<and>
       distinct (map (\<lambda>ob. name_value (obj_name ob))
                  [ob. ObjectTypeDefinition ob \<leftarrow> concat sources]) \<and>
       distinct (map (\<lambda>en. name_value (en_name en))
                  [en. EnumTypeDefinition en \<leftarrow> concat sources]))"
    have "\<exists>e. collectSources sources \<lparr>typeDefsMap = [], enumDefsMap = []\<rparr> = Inl e"
    proof (cases "collectSources sources \<lparr>typeDefsMap = [], enumDefsMap = []\<rparr>")
      case (Inl e)
      then show ?thesis by blast
    next
      case (Inr built)
      then show ?thesis using n collectSources_Inr [of sources built] by blast
    qed
    then obtain e where
      e: "collectSources sources \<lparr>typeDefsMap = [], enumDefsMap = []\<rparr> = Inl e"
      by blast
    then have "readSchemaSources sources = Inl e"
      by (simp add: readSchemaSources_def)
    moreover have "message e \<in> {''Enum with this name has already been defined.'',
                      ''Table with this name has already been defined.'',
                      ''Unsupported definition.''}"
      using e unfolding collectSources_concat by (rule collectDefinitions_messages)
    ultimately show "\<exists>e. readSchemaSources sources = Inl e \<and>
         message e \<in> {''Enum with this name has already been defined.'',
                      ''Table with this name has already been defined.'',
                      ''Unsupported definition.''}"
      by blast
  }
  fix out
  assume h: "readSchemaSources sources = Inr out \<and>
      ObjectTypeDefinition shared \<in> set (concat sources) \<and>
      EnumTypeDefinition sharing \<in> set (concat sources) \<and>
      name_value (en_name sharing) = name_value (obj_name shared) \<and>
      ObjectTypeDefinition a \<in> set (concat sources) \<and>
      name_value (obj_name a) \<noteq> name_value (obj_name shared) \<and>
      i < length (obj_fields a) \<and>
      unwrapType (obj_fields a ! i) = Inr fieldType \<and>
      ft_name fieldType = name_value (obj_name shared) \<and>
      name_value (obj_name shared) \<notin> set ScalarTypes \<and>
      name_value (obj_name shared) \<noteq> ''rid'' \<and>
      name_value (obj_name shared) \<noteq> ''_'' \<and>
      findDirective (fd_directives (obj_fields a ! i)) (NAME DIRECTIVE_REF) = None"
  then have ne: "name_value (obj_name shared) \<noteq> name_value (obj_name a)" by auto
  from h show "\<exists>table \<in> set (tables out).
         tbl_name table = name_value (obj_name a) \<and>
         length (tbl_columns table) = length (obj_fields a) \<and>
         col_type (tbl_columns table ! i) = ''foreignrow'' \<and>
         col_references (tbl_columns table ! i) =
           Some \<lparr>ref_table = name_value (obj_name shared), ref_column = None\<rparr>"
    by (intro readSchemaSources_foreign_column [of sources out a shared i fieldType] ne) simp_all
qed

theorem C10_shared_name_witness:
  "readSchemaSources
     [[ObjectTypeDefinition (ObjectTypeDefinitionNode (NameNode 5 ''N'') [] []),
       ObjectTypeDefinition
         (ObjectTypeDefinitionNode (NameNode 12 ''A'') []
            [FieldDefinitionNode (NameNode 16 ''f'') None (NamedType (NameNode 19 ''N'')) []])],
      [EnumTypeDefinition
         (EnumTypeDefinitionNode (NameNode 5 ''N'')
            [DirectiveNode (NameNode 8 ''indexing'')
               [ArgumentNode (NameNode 17 ''first'') (IntValue 0)]]
            [EnumValueDefinitionNode (NameNode 29 ''X'')])]] =
     Inr \<lparr>tables =
            [\<lparr>tbl_name = ''N'', tbl_columns = [], tbl_tags = []\<rparr>,
             \<lparr>tbl_name = ''A'',
              tbl_columns =
                [\<lparr>col_name = Some ''f'', col_description = None, col_array = False,
                  col_type = ''foreignrow'', col_unique = False, col_localized = False,
                  col_references = Some \<lparr>ref_table = ''N'', ref_column = None\<rparr>,
                  col_until = None, col_file = None, col_files = None\<rparr>],
              tbl_tags = []\<rparr>],
          enumerations =
            [\<lparr>enum_name = ''N'', enum_indexing = 0, enum_enumerators = [Some ''X'']\<rparr>]\<rparr> \<and>
   (\<exists>table \<in> set
        [\<lparr>tbl_name = ''N'', tbl_columns = [], tbl_tags = []\<rparr>,
         \<lparr>tbl_name = ''A'',
          tbl_columns =
            [\<lparr>col_name = Some ''f'', col_description = None, col_array = False,
              col_type = ''foreignrow'', col_unique = False, col_localized = False,
              col_references = Some \<lparr>ref_table = ''N'', ref_column = None\<rparr>,
              col_until = None, col_file = None, col_files = None\<rparr>],
          tbl_tags = []\<rparr>].
      tbl_name table = ''A'' \<and> length (tbl_columns table) = 1 \<and>
      col_type (tbl_columns table ! 0) = ''foreignrow'' \<and>
      col_references (tbl_columns table ! 0) = Some \<lparr>ref_table = ''N'', ref_column = None\<rparr>)"
proof -
  let ?f = "FieldDefinitionNode (NameNode 16 ''f'') None (NamedType (NameNode 19 ''N'')) []"
  let ?N = "ObjectTypeDefinitionNode (NameNode 5 ''N'') [] []"
  let ?A = "ObjectTypeDefinitionNode (NameNode 12 ''A'') [] [?f]"
  let ?E = "EnumTypeDefinitionNode (NameNode 5 ''N'')
            [DirectiveNode (NameNode 8 ''indexing'')
               [ArgumentNode (NameNode 17 ''first'') (IntValue 0)]]
            [EnumValueDefinitionNode (NameNode 29 ''X'')]"
  let ?sources = "[[ObjectTypeDefinition ?N, ObjectTypeDefinition ?A], [EnumTypeDefinition ?E]]"
  let ?tables = "[\<lparr>tbl_name = ''N'', tbl_columns = [], tbl_tags = []\<rparr>,
         \<lparr>tbl_name = ''A'',
          tbl_columns =
            [\<lparr>col_name = Some ''f'', col_description = None, col_array = False,
              col_type = ''foreignrow'', col_unique = False, col_localized = False,
              col_references = Some \<lparr>ref_table = ''N'', ref_column = None\<rparr>,
              col_until = None, col_file = None, col_files = None\<rparr>],
          tbl_tags = []\<rparr>]"
  let ?out = "\<lparr>tables = ?tables,
          enumerations =
            [\<lparr>enum_name = ''N'', enum_indexing = 0, enum_enumerators = [Some ''X'']\<rparr>]\<rparr>"
  note inst = C10_shared_name [where sources = ?sources and shared = ?N and sharing = ?E
      and a = ?A and i = 0 and fieldType = "\<lparr>ft_array = False, ft_name = ''N''\<rparr>"]
  have ok: "readSchemaSources ?sources = Inr ?out"
    using inst [THEN conjunct1]
    by (simp add: Map_has_def Map_get_def Map_values_def parseTableNode_def getTags_def
        findDirective_def parseFieldNode_def referencesField_def unwrapType_def
        classifyFieldType_def truthy_def ScalarTypes_def isUnique_def isLocalized_def
        getFileExtension_def getFileGroupExtensions_def ref_validate_def
        no_arguments_validate_def file_validate_def files_validate_def indexing_validate_def
        tags_validate_def parseEnumNode_def getIndexingBase_def unknownArgument_def)
  from inst [THEN conjunct2, THEN conjunct2, rule_format, of ?out] ok have
    "\<exists>table \<in> set (tables ?out).
      tbl_name table = ''A'' \<and> length (tbl_columns table) = 1 \<and>
      col_type (tbl_columns table ! 0) = ''foreignrow'' \<and>
      col_references (tbl_columns table ! 0) = Some \<lparr>ref_table = ''N'', ref_column = None\<rparr>"
    by (simp add: unwrapType_def ScalarTypes_def findDirective_def)
  then have "\<exists>table \<in> set ?tables.
      tbl_name table = ''A'' \<and> length (tbl_columns table) = 1 \<and>
      col_type (tbl_columns table ! 0) = ''foreignrow'' \<and>
      col_references (tbl_columns table ! 0) = Some \<lparr>ref_table = ''N'', ref_column = None\<rparr>"
    by (simp only: SchemaFile.simps)
  with ok show ?thesis by (rule conjI)
qed

text \<open>
  Claim C10 as stated fails for a field of the table that bears the shared name: in
  \<^verbatim>\<open>type N { f: N }\<close> and \<^verbatim>\<open>enum N @indexing(first: 0) { X }\<close> the field is a \<open>row\<close>
  reference, the self-name test coming first. It fails for the shared name \<open>rid\<close>: with
  \<^verbatim>\<open>type rid  type A { f: rid }\<close> and \<^verbatim>\<open>enum rid @indexing(first: 0) { X }\<close> the field
  references no table. It fails for the shared name \<open>_\<close>: with \<^verbatim>\<open>type _  type A { f: _ }\<close>
  and \<^verbatim>\<open>enum _ @indexing(first: 0) { X }\<close> the run fails on the bare placeholder, and with
  \<^verbatim>\<open>f: [_]\<close> the column has the type \<open>array\<close> and no reference. It fails for a field with a
  \<open>ref\<close> directive: in \<^verbatim>\<open>type N { x: i32 @unique }  type A { f: N @ref(column: "x") }\<close> and
  \<^verbatim>\<open>enum N @indexing(first: 0) { X }\<close> the column has the type \<open>i32\<close>.
\<close>

theorem C10_shared_name_counterexample:
  "readSchemaSources
     [[ObjectTypeDefinition
         (ObjectTypeDefinitionNode (NameNode 5 ''N'') []
            [FieldDefinitionNode (NameNode 9 ''f'') None (NamedType (NameNode 12 ''N'')) []])],
      [EnumTypeDefinition
         (EnumTypeDefinitionNode (NameNode 5 ''N'')
            [DirectiveNode (NameNode 8 ''indexing'')
               [ArgumentNode (NameNode 17 ''first'') (IntValue 0)]]
            [EnumValueDefinitionNode (NameNode 29 ''X'')])]] =
     Inr \<lparr>tables =
            [\<lparr>tbl_name = ''N'',
              tbl_columns =
                [\<lparr>col_name = Some ''f'', col_description = None, col_array = False,
                  col_type = ''row'', col_unique = False, col_localized = False,
                  col_references = Some \<lparr>ref_table = ''N'', ref_column = None\<rparr>,
                  col_until = None, col_file = None, col_files = None\<rparr>],
              tbl_tags = []\<rparr>],
          enumerations =
            [\<lparr>enum_name = ''N'', enum_indexing = 0, enum_enumerators = [Some ''X'']\<rparr>]\<rparr> \<and>
   readSchemaSources
     [[ObjectTypeDefinition (ObjectTypeDefinitionNode (NameNode 5 ''rid'') [] []),
       ObjectTypeDefinition
         (ObjectTypeDefinitionNode (NameNode 14 ''A'') []
            [FieldDefinitionNode (NameNode 18 ''f'') None (NamedType (NameNode 21 ''rid'')) []])],
      [EnumTypeDefinition
         (EnumTypeDefinitionNode (NameNode 5 ''rid'')
            [DirectiveNode (NameNode 10 ''indexing'')
               [ArgumentNode (NameNode 19 ''first'') (IntValue 0)]]
            [EnumValueDefinitionNode (NameNode 31 ''X'')])]] =
     Inr \<lparr>tables =
            [\<lparr>tbl_name = ''rid'', tbl_columns = [], tbl_tags = []\<rparr>,
             \<lparr>tbl_name = ''A'',
              tbl_columns =
                [\<lparr>col_name = Some ''f'', col_description = None, col_array = False,
                  col_type = ''foreignrow'', col_unique = False, col_localized = False,
                  col_references = None,
                  col_until = None, col_file = None, col_files = None\<rparr>],
              tbl_tags = []\<rparr>],
          enumerations =
            [\<lparr>enum_name = ''rid'', enum_indexing = 0, enum_enumerators = [Some ''X'']\<rparr>]\<rparr> \<and>
   readSchemaSources
     [[ObjectTypeDefinition (ObjectTypeDefinitionNode (NameNode 5 ''_'') [] []),
       ObjectTypeDefinition
         (ObjectTypeDefinitionNode (NameNode 12 ''A'') []
            [FieldDefinitionNode (NameNode 16 ''f'') None (NamedType (NameNode 19 ''_'')) []])],
      [EnumTypeDefinition
         (EnumTypeDefinitionNode (NameNode 5 ''_'')
            [DirectiveNode (NameNode 8 ''indexing'')
               [ArgumentNode (NameNode 17 ''first'') (IntValue 0)]]
            [EnumValueDefinitionNode (NameNode 29 ''X'')])]] =
     Inl (GraphQLError ''Unknown type is only allowed inside an array.''
            [NType (NamedType (NameNode 19 ''_''))] None) \<and>
   readSchemaSources
     [[ObjectTypeDefinition (ObjectTypeDefinitionNode (NameNode 5 ''_'') [] []),
       ObjectTypeDefinition
         (ObjectTypeDefinitionNode (NameNode 12 ''A'') []
            [FieldDefinitionNode (NameNode 16 ''f'') None
               (ListType (NamedType (NameNode 20 ''_''))) []])],
      [EnumTypeDefinition
         (EnumTypeDefinitionNode (NameNode 5 ''_'')
            [DirectiveNode (NameNode 8 ''indexing'')
               [ArgumentNode (NameNode 17 ''first'') (IntValue 0)]]
            [EnumValueDefinitionNode (NameNode 29 ''X'')])]] =
     Inr \<lparr>tables =
            [\<lparr>tbl_name = ''_'', tbl_columns = [], tbl_tags = []\<rparr>,
             \<lparr>tbl_name = ''A'',
              tbl_columns =
                [\<lparr>col_name = Some ''f'', col_description = None, col_array = True,
                  col_type = ''array'', col_unique = False, col_localized = False,
                  col_references = None,
                  col_until = None, col_file = None, col_files = None\<rparr>],
              tbl_tags = []\<rparr>],
          enumerations =
            [\<lparr>enum_name = ''_'', enum_indexing = 0, enum_enumerators = [Some ''X'']\<rparr>]\<rparr> \<and>
   readSchemaSources
     [[ObjectTypeDefinition
         (ObjectTypeDefinitionNode (NameNode 5 ''N'') []
            [FieldDefinitionNode (NameNode 9 ''x'') None (NamedType (NameNode 12 ''i32''))
               [DirectiveNode (NameNode 17 ''unique'') []]]),
       ObjectTypeDefinition
         (ObjectTypeDefinitionNode (NameNode 31 ''A'') []
            [FieldDefinitionNode (NameNode 35 ''f'') None (NamedType (NameNode 38 ''N''))
               [DirectiveNode (NameNode 41 ''ref'')
                  [ArgumentNode (NameNode 45 ''column'') (StringValue ''x'')]]])],
      [EnumTypeDefinition
         (EnumTypeDefinitionNode (NameNode 5 ''N'')
            [DirectiveNode (NameNode 8 ''indexing'')
               [ArgumentNode (NameNode 17 ''first'') (IntValue 0)]]
            [EnumValueDefinitionNode (NameNode 29 ''X'')])]] =
     Inr \<lparr>tables =
            [\<lparr>tbl_name = ''N'',
              tbl_columns =
                [\<lparr>col_name = Some ''x'', col_description = None, col_array = False,
                  col_type = ''i32'', col_unique = True, col_localized = False,
                  col_references = None,
                  col_until = None, col_file = None, col_files = None\<rparr>],
              tbl_tags = []\<rparr>,
             \<lparr>tbl_name = ''A'',
              tbl_columns =
                [\<lparr>col_name = Some ''f'', col_description = None, col_array = False,
                  col_type = ''i32'', col_unique = False, col_localized = False,
                  col_references = Some \<lparr>ref_table = ''N'', ref_column = Some ''x''\<rparr>,
                  col_until = None, col_file = None, col_files = None\<rparr>],
              tbl_tags = []\<rparr>],
          enumerations =
            [\<lparr>enum_name = ''N'', enum_indexing = 0, enum_enumerators = [Some ''X'']\<rparr>]\<rparr>"
  by (simp add: reader_defs)

end
